theory Spec2Isabelle
  imports Main "HOL-Library.AList" "HOL-Library.Product_Lexorder"
begin

section \<open>Data model\<close>

text \<open>
  The application is a sequence of Flask iterations (v1 .. v5) over the same external
  services: a Firestore document database, bcrypt, the Gemini client and, in v5, the
  speech services. The handlers are embedded as pure functions that take the behaviour of
  those services for one request (\<open>env\<close>), the stored documents (\<open>db\<close>) and the
  session, and return the response together with the updated store and session.

  Strings are lists of 8-bit characters. A Firestore timestamp is a natural number; the
  sentinel \<^verbatim>\<open>firestore.SERVER_TIMESTAMP\<close> that the code puts into the dictionaries it
  writes is kept as a value of its own, because \<^verbatim>\<open>get_user_profile_data\<close> hands such a
  dictionary back to its caller.
\<close>

type_synonym bytes = "nat list"

datatype tsval = SERVER_TIMESTAMP | At nat

text \<open>
  A document of the \<^verbatim>\<open>users\<close> collection (and, in v3, the \<^verbatim>\<open>profile\<close> document): a
  dictionary over the keys the application writes. \<open>None\<close> is an absent key.
\<close>

record user_doc =
  agent_persona :: "string option"
  agent_goal :: "string option"
  special_instructions :: "string option"
  user_display_name :: "string option"
  hashed_password :: "string option"
  last_updated_at :: "tsval option"
  created_at :: "tsval option"

definition empty_doc :: user_doc where
  "empty_doc = \<lparr>agent_persona = None, agent_goal = None, special_instructions = None,
     user_display_name = None, hashed_password = None, last_updated_at = None,
     created_at = None\<rparr>"

text \<open>
  A stored Message Turn of \<^verbatim>\<open>default/<username>/messages\<close>. \<open>doc_id\<close> is the document's
  name in its collection; \<open>timestamp\<close> is the value the server put in place of the
  sentinel when the document was written.
\<close>

record message =
  doc_id :: nat
  user :: "string option"
  user_message :: "string option"
  ai_response :: "string option"
  timestamp :: nat

record db =
  users :: "(string \<times> user_doc) list"
  profiles :: "string \<rightharpoonup> user_doc"
  messages :: "string \<Rightarrow> message list"

record session =
  authenticated :: bool
  username :: "string option"
  is_admin :: bool

text \<open>One entry of the \<^verbatim>\<open>contents\<close> list sent to the model: its role and its text.\<close>

type_synonym entry = "string \<times> string"

datatype db_op =
    UsersGet | UsersSet | UsersStream | ProfileGet | ProfileSet
  | MessagesQuery | MessagesStream | MessagesAdd | BatchCommit | DocDelete

text \<open>
  What the external services do during one request. A call that raises is \<open>Inl\<close> of the
  exception's text; \<open>db_raises\<close> says which Firestore calls raise. \<open>client\<close> is false when
  the global Gemini client is \<^verbatim>\<open>None\<close>. \<open>checkpw\<close> is \<^verbatim>\<open>bcrypt.checkpw\<close>
  on a password and a stored hash: it returns whether they match, or raises (a password
  over 72 bytes, a malformed hash). \<open>auto_doc\<close> is the name Firestore generates for
  \<^verbatim>\<open>document(None)\<close>, \<open>auto_id\<close> the name it generates for an added message.
\<close>

record env =
  checkpw :: "string \<Rightarrow> string \<Rightarrow> string + bool"
  hashpw :: "string \<Rightarrow> string"
  client :: bool
  generate_content :: "string \<Rightarrow> entry list \<Rightarrow> string + string"
  recognize :: "bytes \<Rightarrow> string + string list list"
  synthesize_speech :: "string \<Rightarrow> string + bytes"
  b64encode :: "bytes \<Rightarrow> string"
  strftime :: "nat \<Rightarrow> string"
  db_raises :: "db_op \<Rightarrow> string option"
  server_time :: nat
  auto_id :: nat
  auto_doc :: string

datatype jval = JStr string | JBool bool | JInt nat

record display_turn =
  shown_user_message :: string
  shown_ai_response :: string
  shown_timestamp :: string

datatype response =
    Redirect string
  | Render string
  | RenderChat string "string option" "display_turn list"
  | RenderRaw string "string option" "(message \<times> string) list"
  | RenderAdmin "string list" "user_doc list"
  | Json nat "(string \<times> jval) list"
  | Unhandled string

datatype event =
    Recognize bytes
  | Generate string "entry list"
  | AddMessage string message
  | Synthesize string

datatype http_method = GET | POST

record form =
  form_username :: "string option"
  form_password :: "string option"

section \<open>Python helpers\<close>

text \<open>\<^verbatim>\<open>str.isspace\<close> on the code points below 256, and \<^verbatim>\<open>str.strip()\<close>.\<close>

definition isspace :: "char \<Rightarrow> bool" where
  "isspace c = (of_char c \<in> set [9, 10, 11, 12, 13, 28, 29, 30, 31, 32, 133, 160 :: nat])"

definition strip :: "string \<Rightarrow> string" where
  "strip s = dropWhile isspace (rev (dropWhile isspace (rev s)))"

text \<open>\<^verbatim>\<open>sep.join(parts)\<close>.\<close>

fun join :: "string \<Rightarrow> string list \<Rightarrow> string" where
  "join sep [] = []"
| "join sep [x] = x"
| "join sep (x # y # ys) = x @ sep @ join sep (y # ys)"

text \<open>How an f-string prints a username that may be \<^verbatim>\<open>None\<close>.\<close>

definition py_str :: "string option \<Rightarrow> string" where
  "py_str v = (case v of None \<Rightarrow> ''None'' | Some s \<Rightarrow> s)"

section \<open>The document store\<close>

text \<open>\<^verbatim>\<open>collection.document(name)\<close>: a missing name gets a generated one.\<close>

definition doc_key :: "env \<Rightarrow> string option \<Rightarrow> string" where
  "doc_key env name = (case name of None \<Rightarrow> auto_doc env | Some n \<Rightarrow> n)"

text \<open>The store replaces the sentinel by its own clock when it writes a document.\<close>

definition resolve_ts :: "nat \<Rightarrow> tsval \<Rightarrow> tsval" where
  "resolve_ts now t = (case t of SERVER_TIMESTAMP \<Rightarrow> At now | At n \<Rightarrow> At n)"

definition resolve :: "nat \<Rightarrow> user_doc \<Rightarrow> user_doc" where
  "resolve now d = d\<lparr>last_updated_at := map_option (resolve_ts now) (last_updated_at d),
                     created_at := map_option (resolve_ts now) (created_at d)\<rparr>"

text \<open>\<^verbatim>\<open>set(data, merge=True)\<close>: the keys of \<open>new\<close> are written over \<open>old\<close>, the others kept.\<close>

definition over :: "'a option \<Rightarrow> 'a option \<Rightarrow> 'a option" where
  "over new old = (case new of None \<Rightarrow> old | Some v \<Rightarrow> Some v)"

definition merge_doc :: "user_doc \<Rightarrow> user_doc \<Rightarrow> user_doc" where
  "merge_doc new old =
     \<lparr>agent_persona = over (agent_persona new) (agent_persona old),
      agent_goal = over (agent_goal new) (agent_goal old),
      special_instructions = over (special_instructions new) (special_instructions old),
      user_display_name = over (user_display_name new) (user_display_name old),
      hashed_password = over (hashed_password new) (hashed_password old),
      last_updated_at = over (last_updated_at new) (last_updated_at old),
      created_at = over (created_at new) (created_at old)\<rparr>"

definition users_get :: "env \<Rightarrow> db \<Rightarrow> string option \<Rightarrow> string + user_doc option" where
  "users_get env d name =
     (case db_raises env UsersGet of
        Some e \<Rightarrow> Inl e
      | None \<Rightarrow> Inr (map_of (users d) (doc_key env name)))"

definition users_set :: "env \<Rightarrow> db \<Rightarrow> string option \<Rightarrow> user_doc \<Rightarrow> string + db" where
  "users_set env d name doc =
     (case db_raises env UsersSet of
        Some e \<Rightarrow> Inl e
      | None \<Rightarrow>
          Inr (d\<lparr>users := AList.update (doc_key env name) (resolve (server_time env) doc) (users d)\<rparr>))"

definition users_set_merge :: "env \<Rightarrow> db \<Rightarrow> string option \<Rightarrow> user_doc \<Rightarrow> string + db" where
  "users_set_merge env d name doc =
     (case db_raises env UsersSet of
        Some e \<Rightarrow> Inl e
      | None \<Rightarrow>
          Inr (d\<lparr>users := AList.update (doc_key env name)
                  (merge_doc (resolve (server_time env) doc)
                     (case map_of (users d) (doc_key env name) of
                        None \<Rightarrow> empty_doc | Some old \<Rightarrow> old))
                  (users d)\<rparr>))"

definition users_stream :: "env \<Rightarrow> db \<Rightarrow> string + user_doc list" where
  "users_stream env d =
     (case db_raises env UsersStream of
        Some e \<Rightarrow> Inl e
      | None \<Rightarrow> Inr (map snd (users d)))"

definition profile_get :: "env \<Rightarrow> db \<Rightarrow> string option \<Rightarrow> string + user_doc option" where
  "profile_get env d name =
     (case db_raises env ProfileGet of
        Some e \<Rightarrow> Inl e
      | None \<Rightarrow> Inr (profiles d (doc_key env name)))"

definition profile_set :: "env \<Rightarrow> db \<Rightarrow> string option \<Rightarrow> user_doc \<Rightarrow> string + db" where
  "profile_set env d name doc =
     (case db_raises env ProfileSet of
        Some e \<Rightarrow> Inl e
      | None \<Rightarrow>
          Inr (d\<lparr>profiles := (profiles d)(doc_key env name \<mapsto> resolve (server_time env) doc)\<rparr>))"

text \<open>
  \<^verbatim>\<open>order_by("timestamp", direction=DESCENDING).limit(n)\<close>: Firestore orders by the field
  and then by the document name, both descending.
\<close>

definition order_key :: "message \<Rightarrow> nat \<times> nat" where
  "order_key m = (timestamp m, doc_id m)"

definition order_by_timestamp_desc :: "message list \<Rightarrow> message list" where
  "order_by_timestamp_desc ms = rev (sort_key order_key ms)"

definition messages_query :: "env \<Rightarrow> db \<Rightarrow> string option \<Rightarrow> nat \<Rightarrow> string + message list" where
  "messages_query env d name n =
     (case db_raises env MessagesQuery of
        Some e \<Rightarrow> Inl e
      | None \<Rightarrow> Inr (take n (order_by_timestamp_desc (messages d (doc_key env name)))))"

text \<open>\<^verbatim>\<open>messages_ref.limit(n).stream()\<close> with no order: by document name, ascending.\<close>

definition messages_limit :: "env \<Rightarrow> db \<Rightarrow> string option \<Rightarrow> nat \<Rightarrow> string + message list" where
  "messages_limit env d name n =
     (case db_raises env MessagesStream of
        Some e \<Rightarrow> Inl e
      | None \<Rightarrow> Inr (take n (sort_key doc_id (messages d (doc_key env name)))))"

definition messages_stream :: "env \<Rightarrow> db \<Rightarrow> string option \<Rightarrow> string + message list" where
  "messages_stream env d name =
     (case db_raises env MessagesStream of
        Some e \<Rightarrow> Inl e
      | None \<Rightarrow> Inr (sort_key doc_id (messages d (doc_key env name))))"

text \<open>The store with the collection \<^verbatim>\<open>default/<key>/messages\<close> replaced.\<close>

definition put_messages :: "db \<Rightarrow> string \<Rightarrow> message list \<Rightarrow> db" where
  "put_messages d key ms = d\<lparr>messages := (messages d)(key := ms)\<rparr>"

text \<open>
  \<^verbatim>\<open>messages.add({...})\<close>: the new document gets a generated name and the server's time.
  The write is atomic: it either raises and stores nothing, or stores the document.
  Firestore refuses to create a document whose name is taken.
\<close>

definition new_message :: "env \<Rightarrow> string option \<Rightarrow> string \<Rightarrow> string \<Rightarrow> message" where
  "new_message env name user_input ai_text =
     \<lparr>doc_id = auto_id env, user = name, user_message = Some user_input,
      ai_response = Some ai_text, timestamp = server_time env\<rparr>"

definition messages_add :: "env \<Rightarrow> db \<Rightarrow> string option \<Rightarrow> message \<Rightarrow> string + db" where
  "messages_add env d name m =
     (case db_raises env MessagesAdd of
        Some e \<Rightarrow> Inl e
      | None \<Rightarrow>
          if doc_id m \<in> set (map doc_id (messages d (doc_key env name)))
          then Inl ''AlreadyExists''
          else Inr (put_messages d (doc_key env name) (messages d (doc_key env name) @ [m])))"

text \<open>A committed batch of deletes, and a single delete: by document name.\<close>

definition delete_docs :: "message list \<Rightarrow> message list \<Rightarrow> message list" where
  "delete_docs docs ms = filter (\<lambda>m. doc_id m \<notin> set (map doc_id docs)) ms"

definition batch_commit :: "env \<Rightarrow> db \<Rightarrow> string option \<Rightarrow> message list \<Rightarrow> string + db" where
  "batch_commit env d name docs =
     (case db_raises env BatchCommit of
        Some e \<Rightarrow> Inl e
      | None \<Rightarrow>
          Inr (put_messages d (doc_key env name) (delete_docs docs (messages d (doc_key env name)))))"

definition doc_delete :: "env \<Rightarrow> db \<Rightarrow> string option \<Rightarrow> message \<Rightarrow> string + db" where
  "doc_delete env d name m =
     (case db_raises env DocDelete of
        Some e \<Rightarrow> Inl e
      | None \<Rightarrow>
          Inr (put_messages d (doc_key env name) (delete_docs [m] (messages d (doc_key env name)))))"

section \<open>Users and profiles\<close>

definition ALLOWED_USERNAMES_v4 :: "string list" where
  "ALLOWED_USERNAMES_v4 = [''change this'']"

definition ALLOWED_USERNAMES_v5 :: "string list" where
  "ALLOWED_USERNAMES_v5 = [''add here'']"

definition ADMIN_USERNAMES :: "string list" where
  "ADMIN_USERNAMES = [''admin'']"

definition DEFAULT_PERSONA :: string where
  "DEFAULT_PERSONA = ''You are a helpful and friendly AI assistant.''"

definition DEFAULT_GOAL :: string where
  "DEFAULT_GOAL = ''Answer questions and engage in natural conversation.''"

text \<open>\<^verbatim>\<open>get_user_data\<close> (v3.1, v4, v5): the stored dictionary, or \<^verbatim>\<open>None\<close>.\<close>

definition get_user_data :: "env \<Rightarrow> db \<Rightarrow> string option \<Rightarrow> string + user_doc option" where
  "get_user_data env d name = users_get env d name"

text \<open>
  The dictionary \<^verbatim>\<open>default_profile\<close> that \<^verbatim>\<open>get_user_profile_data\<close> (v4, v5) and
  \<^verbatim>\<open>get_or_create_user_profile\<close> (v3) build: four profile fields and the creation time,
  still the sentinel.
\<close>

definition default_profile :: "string option \<Rightarrow> user_doc" where
  "default_profile name =
     \<lparr>agent_persona = Some DEFAULT_PERSONA, agent_goal = Some DEFAULT_GOAL,
      special_instructions = Some [], user_display_name = name,
      hashed_password = None, last_updated_at = None,
      created_at = Some SERVER_TIMESTAMP\<rparr>"

text \<open>
  \<^verbatim>\<open>get_user_profile_data\<close> (v4, v5). A stored document is returned without its three
  internal keys (the three \<^verbatim>\<open>pop\<close> calls); a missing one is written with
  \<^verbatim>\<open>set(default_profile, merge=True)\<close> and the dictionary just built is returned.
\<close>

definition get_user_profile_data :: "env \<Rightarrow> db \<Rightarrow> string option \<Rightarrow> string + (user_doc \<times> db)" where
  "get_user_profile_data env d name =
     (case users_get env d name of
        Inl e \<Rightarrow> Inl e
      | Inr (Some doc) \<Rightarrow>
          Inr (doc\<lparr>hashed_password := None, last_updated_at := None, created_at := None\<rparr>, d)
      | Inr None \<Rightarrow>
          (case users_set_merge env d name (default_profile name) of
             Inl e \<Rightarrow> Inl e
           | Inr d' \<Rightarrow> Inr (default_profile name, d')))"

text \<open>
  \<^verbatim>\<open>get_or_create_user_profile\<close> (v3): the profile document lives under
  \<^verbatim>\<open>default/<username>/user_data/profile\<close>, is returned whole, and a missing one is
  written with a plain \<^verbatim>\<open>set\<close>.
\<close>

definition get_or_create_user_profile :: "env \<Rightarrow> db \<Rightarrow> string option \<Rightarrow> string + (user_doc \<times> db)" where
  "get_or_create_user_profile env d name =
     (case profile_get env d name of
        Inl e \<Rightarrow> Inl e
      | Inr (Some doc) \<Rightarrow> Inr (doc, d)
      | Inr None \<Rightarrow>
          (case profile_set env d name (default_profile name) of
             Inl e \<Rightarrow> Inl e
           | Inr d' \<Rightarrow> Inr (default_profile name, d')))"

text \<open>\<^verbatim>\<open>if key not in profile_to_set: profile_to_set[key] = value\<close>.\<close>

definition fill :: "'a option \<Rightarrow> 'a \<Rightarrow> 'a option" where
  "fill cur dflt = (case cur of None \<Rightarrow> Some dflt | Some v \<Rightarrow> Some v)"

text \<open>
  \<^verbatim>\<open>create_or_update_user\<close> (v4, v5; the allow-list is the only difference). Every caller
  leaves \<^verbatim>\<open>user_profile_data\<close> at its default \<^verbatim>\<open>None\<close>. The lookup of the existing
  document stands outside the \<^verbatim>\<open>try\<close>, so its exception leaves the function (\<open>Inl\<close>);
  the one of the final \<^verbatim>\<open>set\<close> is caught.
\<close>

definition create_or_update_user ::
  "string list \<Rightarrow> env \<Rightarrow> db \<Rightarrow> string \<Rightarrow> string \<Rightarrow> string + ((bool \<times> string) \<times> db)" where
  "create_or_update_user allowed env d name plain_password =
     (if name \<notin> set allowed then Inr ((False, ''Unauthorized username.''), d)
      else
        let hashed = hashpw env plain_password in
        case get_user_data env d (Some name) of
          Inl e \<Rightarrow> Inl e
        | Inr existing_profile \<Rightarrow>
            let p0 = (case existing_profile of None \<Rightarrow> empty_doc | Some doc \<Rightarrow> doc);
                p1 = p0\<lparr>agent_persona := fill (agent_persona p0) DEFAULT_PERSONA,
                        agent_goal := fill (agent_goal p0) DEFAULT_GOAL,
                        special_instructions := fill (special_instructions p0) [],
                        user_display_name := fill (user_display_name p0) name\<rparr>;
                p2 = p1\<lparr>hashed_password := Some hashed,
                        last_updated_at := Some SERVER_TIMESTAMP,
                        created_at := fill (created_at p1) SERVER_TIMESTAMP\<rparr>
            in case users_set env d (Some name) p2 of
                 Inl e \<Rightarrow> Inr ((False, ''Firestore error: '' @ e), d)
               | Inr d' \<Rightarrow> Inr ((True, ''User created/updated successfully.''), d'))"

section \<open>Login\<close>

text \<open>
  \<^verbatim>\<open>login\<close> of v4. The result is the response, the messages flashed (text, category)
  and the session. \<^verbatim>\<open>user_data and "hashed_password" in user_data\<close> holds exactly when a
  document is stored and has the key. A missing password field makes
  \<^verbatim>\<open>password.encode\<close> raise; no handler catches it, nor an exception of the lookup or
  of \<^verbatim>\<open>bcrypt.checkpw\<close>: the request is then answered by Flask's error page.
\<close>

definition login_v4 ::
  "env \<Rightarrow> db \<Rightarrow> session \<Rightarrow> http_method \<Rightarrow> form \<Rightarrow> response \<times> (string \<times> string) list \<times> session" where
  "login_v4 env d s m f =
     (if authenticated s then (Redirect ''chat_page'', [], s)
      else if m = POST then
        (case get_user_data env d (form_username f) of
           Inl e \<Rightarrow> (Unhandled e, [], s)
         | Inr user_data \<Rightarrow>
             (case (case user_data of None \<Rightarrow> None | Some doc \<Rightarrow> hashed_password doc) of
                Some stored \<Rightarrow>
                  (case form_password f of
                     None \<Rightarrow> (Unhandled ''AttributeError'', [], s)
                   | Some password \<Rightarrow>
                       (case checkpw env password stored of
                          Inl e \<Rightarrow> (Unhandled e, [], s)
                        | Inr matches \<Rightarrow>
                            if matches
                            then (Redirect ''chat_page'', [(''Logged in successfully!'', ''success'')],
                                  s\<lparr>authenticated := True, username := form_username f\<rparr>)
                            else (Render ''login.html'',
                                  [(''Invalid username or password.'', ''danger'')], s)))
              | None \<Rightarrow> (Render ''login.html'', [(''Invalid username or password.'', ''danger'')], s)))
      else (Render ''login.html'', [], s))"

text \<open>\<^verbatim>\<open>login\<close> of v5: as v4, and a username of \<^verbatim>\<open>ADMIN_USERNAMES\<close> gets the admin flag.\<close>

definition login_v5 ::
  "env \<Rightarrow> db \<Rightarrow> session \<Rightarrow> http_method \<Rightarrow> form \<Rightarrow> response \<times> (string \<times> string) list \<times> session" where
  "login_v5 env d s m f =
     (if authenticated s then (Redirect ''chat_page'', [], s)
      else if m = POST then
        (case get_user_data env d (form_username f) of
           Inl e \<Rightarrow> (Unhandled e, [], s)
         | Inr user_data \<Rightarrow>
             (case (case user_data of None \<Rightarrow> None | Some doc \<Rightarrow> hashed_password doc) of
                Some stored \<Rightarrow>
                  (case form_password f of
                     None \<Rightarrow> (Unhandled ''AttributeError'', [], s)
                   | Some password \<Rightarrow>
                       (case checkpw env password stored of
                          Inl e \<Rightarrow> (Unhandled e, [], s)
                        | Inr matches \<Rightarrow>
                            if matches
                            then (Redirect ''chat_page'', [(''Logged in successfully!'', ''success'')],
                                  s\<lparr>authenticated := True, username := form_username f,
                                     is_admin := (case form_username f of
                                                    None \<Rightarrow> is_admin s
                                                  | Some u \<Rightarrow>
                                                      if u \<in> set ADMIN_USERNAMES then True
                                                      else is_admin s)\<rparr>)
                            else (Render ''login.html'',
                                  [(''Invalid username or password.'', ''danger'')], s)))
              | None \<Rightarrow> (Render ''login.html'', [(''Invalid username or password.'', ''danger'')], s)))
      else (Render ''login.html'', [], s))"

section \<open>Admin user management\<close>

definition quoted :: "string \<Rightarrow> string" where
  "quoted s = [CHR 0x27] @ s @ [CHR 0x27]"

text \<open>The listing loop: every streamed dictionary loses its \<^verbatim>\<open>hashed_password\<close> key.\<close>

definition list_users :: "env \<Rightarrow> db \<Rightarrow> user_doc list \<times> (string \<times> string) list" where
  "list_users env d =
     (case users_stream env d of
        Inl e \<Rightarrow> ([], [(''Error fetching user list: '' @ e, ''danger'')])
      | Inr docs \<Rightarrow> (map (\<lambda>doc. doc\<lparr>hashed_password := None\<rparr>) docs, []))"

text \<open>
  The body of \<^verbatim>\<open>admin_create_user\<close> that v4 and v5 share: the POST branch, then the
  listing and the page.
\<close>

definition admin_serve ::
  "string list \<Rightarrow> env \<Rightarrow> db \<Rightarrow> http_method \<Rightarrow> form \<Rightarrow> response \<times> (string \<times> string) list \<times> db" where
  "admin_serve allowed env d m f =
     (case
        (if m = POST then
           (case (form_username f, form_password f) of
              (Some name, Some password) \<Rightarrow>
                if name \<noteq> [] \<and> password \<noteq> [] then
                  (case create_or_update_user allowed env d name password of
                     Inl e \<Rightarrow> Inl e
                   | Inr ((success, msg), d') \<Rightarrow>
                       if success
                       then Inr ([(''User '' @ quoted name @ '' created/updated: '' @ msg, ''success'')], d')
                       else Inr ([(''Error creating/updating user '' @ quoted name @ '': '' @ msg, ''danger'')], d'))
                else Inr ([(''Username and password are required.'', ''danger'')], d)
            | _ \<Rightarrow> Inr ([(''Username and password are required.'', ''danger'')], d))
         else Inr ([], d))
      of
        Inl e \<Rightarrow> (Unhandled e, [], d)
      | Inr (flashed, d') \<Rightarrow>
          (case list_users env d' of
             (user_list, flashed') \<Rightarrow> (RenderAdmin allowed user_list, flashed @ flashed', d')))"

text \<open>v4 serves the page to every session; v5 asks for the admin flag first.\<close>

definition admin_create_user_v4 ::
  "env \<Rightarrow> db \<Rightarrow> session \<Rightarrow> http_method \<Rightarrow> form \<Rightarrow> response \<times> (string \<times> string) list \<times> db" where
  "admin_create_user_v4 env d s m f = admin_serve ALLOWED_USERNAMES_v4 env d m f"

definition admin_create_user_v5 ::
  "env \<Rightarrow> db \<Rightarrow> session \<Rightarrow> http_method \<Rightarrow> form \<Rightarrow> response \<times> (string \<times> string) list \<times> db" where
  "admin_create_user_v5 env d s m f =
     (if \<not> is_admin s
      then (Redirect ''chat_page'', [(''You do not have permission to access this page.'', ''danger'')], d)
      else admin_serve ALLOWED_USERNAMES_v5 env d m f)"

section \<open>Prompt assembly\<close>

text \<open>
  The system instruction, as \<^verbatim>\<open>chat\<close> (v3, v4, v5) and \<^verbatim>\<open>transcribe_and_chat\<close> (v5)
  build it, line for line the same: the list of three parts, the conditional
  \<^verbatim>\<open>append\<close> of the special instructions, the \<^verbatim>\<open>append\<close> of the sentence on the user,
  then \<^verbatim>\<open>" ".join(part for part in parts if part).strip()\<close>.
\<close>

definition system_instruction :: "user_doc \<Rightarrow> string option \<Rightarrow> string" where
  "system_instruction user_profile name =
     (let agent_name = ''Alfred'';
          display_name = (case user_display_name user_profile of
                            None \<Rightarrow> py_str name | Some n \<Rightarrow> n);
          parts0 = [(case agent_persona user_profile of None \<Rightarrow> DEFAULT_PERSONA | Some t \<Rightarrow> t),
                    ''Your name is '' @ agent_name @ ''.'',
                    (case agent_goal user_profile of None \<Rightarrow> DEFAULT_GOAL | Some t \<Rightarrow> t)];
          parts1 = (case special_instructions user_profile of
                      None \<Rightarrow> parts0
                    | Some t \<Rightarrow> if t \<noteq> [] then parts0 @ [t] else parts0);
          parts2 = parts1 @ [''The user you are interacting with is named '' @ display_name @ ''.'']
      in strip (join '' '' (filter (\<lambda>part. part \<noteq> []) parts2)))"

text \<open>
  The body of the loop over the fetched history: a user entry when
  \<^verbatim>\<open>data.get("user_message")\<close> is true, then a model entry when
  \<^verbatim>\<open>data.get("ai_response")\<close> is.
\<close>

definition turn_step :: "entry list \<Rightarrow> message \<Rightarrow> entry list" where
  "turn_step conv data =
     (let conv1 = (case user_message data of
                     None \<Rightarrow> conv
                   | Some t \<Rightarrow> if t \<noteq> [] then conv @ [(''user'', t)] else conv)
      in case ai_response data of
           None \<Rightarrow> conv1
         | Some t \<Rightarrow> if t \<noteq> [] then conv1 @ [(''model'', t)] else conv1)"

text \<open>
  \<^verbatim>\<open>current_conversation\<close>: the loop runs over \<^verbatim>\<open>reversed(list(history_ref.stream()))\<close>,
  then the incoming message is appended. \<open>docs\<close> is what the query streamed.
\<close>

definition current_conversation :: "message list \<Rightarrow> string \<Rightarrow> entry list" where
  "current_conversation docs user_input =
     foldl turn_step [] (rev docs) @ [(''user'', user_input)]"

section \<open>Chat\<close>

text \<open>
  The \<^verbatim>\<open>try\<close> block of \<^verbatim>\<open>chat\<close>, the same in v3, v4 and v5 but for the function that
  loads the profile. Every exception in it is answered with status 500 and its text.
  The result is the response, the store and the calls made to the model and to
  \<^verbatim>\<open>messages.add\<close>, in order.
\<close>

definition chat_turn ::
  "(env \<Rightarrow> db \<Rightarrow> string option \<Rightarrow> string + (user_doc \<times> db)) \<Rightarrow>
   env \<Rightarrow> db \<Rightarrow> string \<Rightarrow> string \<Rightarrow> response \<times> db \<times> event list" where
  "chat_turn load_profile env d name user_input =
     (case load_profile env d (Some name) of
        Inl e \<Rightarrow> (Json 500 [(''error'', JStr e)], d, [])
      | Inr (user_profile, d1) \<Rightarrow>
          let system_instruction_text = system_instruction user_profile (Some name) in
          (case messages_query env d1 (Some name) 10 of
             Inl e \<Rightarrow> (Json 500 [(''error'', JStr e)], d1, [])
           | Inr docs \<Rightarrow>
               let conv = current_conversation docs user_input in
               (case generate_content env system_instruction_text conv of
                  Inl e \<Rightarrow>
                    (Json 500 [(''error'', JStr e)], d1, [Generate system_instruction_text conv])
                | Inr ai_text \<Rightarrow>
                    let m = new_message env (Some name) user_input ai_text in
                    (case messages_add env d1 (Some name) m of
                       Inl e \<Rightarrow>
                         (Json 500 [(''error'', JStr e)], d1,
                          [Generate system_instruction_text conv, AddMessage name m])
                     | Inr d2 \<Rightarrow>
                         (Json 200 [(''response'', JStr ai_text)], d2,
                          [Generate system_instruction_text conv, AddMessage name m])))))"

text \<open>
  \<^verbatim>\<open>chat\<close>: the session check, \<^verbatim>\<open>request.json.get("message", "")\<close>,
  \<^verbatim>\<open>session.get("username", "unknown_user")\<close>, from v3.1 on the check of the client,
  then the block above. The argument \<open>json_message\<close> is the body's \<^verbatim>\<open>message\<close> field.
\<close>

definition chat_v3 :: "env \<Rightarrow> db \<Rightarrow> session \<Rightarrow> string option \<Rightarrow> response \<times> db \<times> event list" where
  "chat_v3 env d s json_message =
     (if \<not> authenticated s then (Json 401 [(''error'', JStr ''Unauthorized'')], d, [])
      else
        let user_input = (case json_message of None \<Rightarrow> [] | Some t \<Rightarrow> t);
            name = (case username s of None \<Rightarrow> ''unknown_user'' | Some u \<Rightarrow> u)
        in chat_turn get_or_create_user_profile env d name user_input)"

definition chat_v4 :: "env \<Rightarrow> db \<Rightarrow> session \<Rightarrow> string option \<Rightarrow> response \<times> db \<times> event list" where
  "chat_v4 env d s json_message =
     (if \<not> authenticated s then (Json 401 [(''error'', JStr ''Unauthorized'')], d, [])
      else
        let user_input = (case json_message of None \<Rightarrow> [] | Some t \<Rightarrow> t);
            name = (case username s of None \<Rightarrow> ''unknown_user'' | Some u \<Rightarrow> u)
        in if \<not> client env
           then (Json 503 [(''error'', JStr ''AI service not available. Please check server logs.'')], d, [])
           else chat_turn get_user_profile_data env d name user_input)"

definition chat_v5 :: "env \<Rightarrow> db \<Rightarrow> session \<Rightarrow> string option \<Rightarrow> response \<times> db \<times> event list" where
  "chat_v5 env d s json_message =
     (if \<not> authenticated s then (Json 401 [(''error'', JStr ''Unauthorized'')], d, [])
      else
        let user_input = (case json_message of None \<Rightarrow> [] | Some t \<Rightarrow> t);
            name = (case username s of None \<Rightarrow> ''unknown_user'' | Some u \<Rightarrow> u)
        in if \<not> client env
           then (Json 503 [(''error'', JStr ''AI service not available.'')], d, [])
           else chat_turn get_user_profile_data env d name user_input)"

section \<open>Voice turn (v5)\<close>

text \<open>
  \<^verbatim>\<open>transcribe_and_chat\<close>: three \<^verbatim>\<open>try\<close> blocks in a row, each returning its own error.
  \<open>audio_data\<close> is the uploaded file's content, \<open>None\<close> when the field is missing. The
  second block has no check of the client: with the client \<^verbatim>\<open>None\<close> the attribute
  access raises inside the block.
\<close>

definition transcribe_and_chat ::
  "env \<Rightarrow> db \<Rightarrow> session \<Rightarrow> bytes option \<Rightarrow> response \<times> db \<times> event list" where
  "transcribe_and_chat env d s audio_data =
     (if \<not> authenticated s then (Json 401 [(''error'', JStr ''Unauthorized'')], d, [])
      else
        case audio_data of
          None \<Rightarrow> (Json 400 [(''error'', JStr ''No audio file found'')], d, [])
        | Some audio_content \<Rightarrow>
            (case recognize env audio_content of
               Inl e \<Rightarrow>
                 (Json 500 [(''error'', JStr (''Speech-to-Text failed: '' @ e))], d,
                  [Recognize audio_content])
             | Inr [] \<Rightarrow>
                 (Json 400 [(''error'', JStr ''Could not understand audio'')], d,
                  [Recognize audio_content])
             | Inr ([] # _) \<Rightarrow>
                 (Json 400 [(''error'', JStr ''Could not understand audio'')], d,
                  [Recognize audio_content])
             | Inr ((transcript # _) # _) \<Rightarrow>
                 (case get_user_profile_data env d (username s) of
                    Inl e \<Rightarrow>
                      (Json 500 [(''error'', JStr (''AI chat failed: '' @ e))], d,
                       [Recognize audio_content])
                  | Inr (user_profile, d1) \<Rightarrow>
                      let system_instruction_text = system_instruction user_profile (username s);
                          conv = [(''user'', transcript)]
                      in if \<not> client env
                         then (Json 500 [(''error'', JStr (''AI chat failed: '' @
                                 quoted ''NoneType'' @ '' object has no attribute '' @ quoted ''models''))],
                               d1, [Recognize audio_content])
                         else
                           (case generate_content env system_instruction_text conv of
                              Inl e \<Rightarrow>
                                (Json 500 [(''error'', JStr (''AI chat failed: '' @ e))], d1,
                                 [Recognize audio_content, Generate system_instruction_text conv])
                            | Inr ai_response_text \<Rightarrow>
                                let m = new_message env (username s) transcript ai_response_text;
                                    key = doc_key env (username s)
                                in (case messages_add env d1 (username s) m of
                                      Inl e \<Rightarrow>
                                        (Json 500 [(''error'', JStr (''AI chat failed: '' @ e))], d1,
                                         [Recognize audio_content,
                                          Generate system_instruction_text conv, AddMessage key m])
                                    | Inr d2 \<Rightarrow>
                                        (case synthesize_speech env ai_response_text of
                                           Inl e \<Rightarrow>
                                             (Json 500 [(''error'', JStr (''Text-to-Speech failed: '' @ e))], d2,
                                              [Recognize audio_content,
                                               Generate system_instruction_text conv, AddMessage key m,
                                               Synthesize ai_response_text])
                                         | Inr audio_content' \<Rightarrow>
                                             (Json 200
                                                [(''user_transcript'', JStr transcript),
                                                 (''ai_response_text'', JStr ai_response_text),
                                                 (''ai_response_audio'', JStr (b64encode env audio_content'))],
                                              d2,
                                              [Recognize audio_content,
                                               Generate system_instruction_text conv, AddMessage key m,
                                               Synthesize ai_response_text])))))))"

section \<open>History page and history clearing\<close>

text \<open>One row of the history that \<^verbatim>\<open>chat_page\<close> (v3 .. v5) hands to the template.\<close>

definition show_turn :: "env \<Rightarrow> message \<Rightarrow> display_turn" where
  "show_turn env data =
     \<lparr>shown_user_message = (case user_message data of None \<Rightarrow> [] | Some t \<Rightarrow> t),
      shown_ai_response = (case ai_response data of None \<Rightarrow> [] | Some t \<Rightarrow> t),
      shown_timestamp = strftime env (timestamp data)\<rparr>"

text \<open>
  \<^verbatim>\<open>chat_page\<close> of v4 (v5 differs in the template's name only): the ten most recent
  turns, \<^verbatim>\<open>reversed\<close>; an exception of the read is flashed and the page shows no turn.
\<close>

definition chat_page_v4 :: "env \<Rightarrow> db \<Rightarrow> session \<Rightarrow> response \<times> (string \<times> string) list" where
  "chat_page_v4 env d s =
     (if \<not> authenticated s then (Redirect ''login'', [])
      else
        case messages_query env d (username s) 10 of
          Inl e \<Rightarrow>
            (RenderChat ''index.html'' (username s) [], [(''Error loading chat history.'', ''danger'')])
        | Inr docs \<Rightarrow>
            (RenderChat ''index.html'' (username s) (map (show_turn env) (rev docs)), []))"

text \<open>
  \<^verbatim>\<open>chat_page\<close> of v2: no handler, and each dictionary is passed on whole with its
  timestamp replaced by the formatted one.
\<close>

definition chat_page_v2 :: "env \<Rightarrow> db \<Rightarrow> session \<Rightarrow> response" where
  "chat_page_v2 env d s =
     (if \<not> authenticated s then Redirect ''login''
      else
        case messages_query env d (username s) 10 of
          Inl e \<Rightarrow> Unhandled e
        | Inr docs \<Rightarrow>
            RenderRaw ''index.html'' (username s)
              (map (\<lambda>data. (data, strftime env (timestamp data))) (rev docs)))"

text \<open>
  \<^verbatim>\<open>clear_history\<close> of v2: every streamed document is deleted on its own, and the
  answer has no count.
\<close>

fun delete_each :: "env \<Rightarrow> db \<Rightarrow> string option \<Rightarrow> message list \<Rightarrow> string option \<times> db" where
  "delete_each env d name [] = (None, d)"
| "delete_each env d name (m # ms) =
     (case doc_delete env d name m of
        Inl e \<Rightarrow> (Some e, d)
      | Inr d' \<Rightarrow> delete_each env d' name ms)"

definition clear_history_v2 :: "env \<Rightarrow> db \<Rightarrow> session \<Rightarrow> response \<times> db" where
  "clear_history_v2 env d s =
     (if \<not> authenticated s then (Json 401 [(''error'', JStr ''Unauthorized'')], d)
      else
        case messages_stream env d (username s) of
          Inl e \<Rightarrow> (Json 500 [(''error'', JStr e)], d)
        | Inr docs \<Rightarrow>
            (case delete_each env d (username s) docs of
               (Some e, d') \<Rightarrow> (Json 500 [(''error'', JStr e)], d')
             | (None, d') \<Rightarrow> (Json 200 [(''success'', JBool True)], d')))"

text \<open>
  \<^verbatim>\<open>clear_history\<close> of v3 .. v5. The loop fetches up to 50 documents, deletes them in one
  batch and fetches again; here the fetch stands at the head of the loop (the source has
  it before the loop and at the end of its body). \<open>batches\<close> records the size of every
  batch committed. The loop ends because a committed batch takes at least one document
  away.
\<close>

lemma delete_docs_take_less:
  assumes ne: "ms \<noteq> []" and n: "0 < n"
  shows "length (delete_docs (take n (sort_key doc_id ms)) ms) < length ms"
proof -
  let ?s = "sort_key doc_id ms"
  have "length ?s = length ms" by simp
  with ne obtain x xs where s: "?s = x # xs" by (cases ?s) auto
  from n obtain k where k: "n = Suc k" by (cases n) auto
  have x: "x \<in> set (take n ?s)" by (simp add: s k)
  have "x \<in> set ?s" by (simp add: s)
  then have xm: "x \<in> set ms" by simp
  have "\<not> (doc_id x \<notin> set (map doc_id (take n ?s)))" using x by simp
  with xm show ?thesis unfolding delete_docs_def
    by (rule_tac length_filter_less)
qed

function clear_loop ::
  "env \<Rightarrow> db \<Rightarrow> string option \<Rightarrow> nat \<Rightarrow> nat list \<Rightarrow> (string + nat) \<times> db \<times> nat list" where
  "clear_loop env d name deleted_count batches =
     (case messages_limit env d name 50 of
        Inl e \<Rightarrow> (Inl e, d, batches)
      | Inr docs \<Rightarrow>
          let count_in_batch = length docs in
          if count_in_batch = 0 then (Inr deleted_count, d, batches)
          else
            (case batch_commit env d name docs of
               Inl e \<Rightarrow> (Inl e, d, batches)
             | Inr d' \<Rightarrow>
                 if count_in_batch < 50
                 then (Inr (deleted_count + count_in_batch), d', batches @ [count_in_batch])
                 else clear_loop env d' name (deleted_count + count_in_batch)
                        (batches @ [count_in_batch])))"
  by pat_completeness auto
termination
proof (relation "measure (\<lambda>(env, d, name, deleted_count, batches). length (messages d (doc_key env name)))")
  show "wf (measure (\<lambda>(env, d, name, deleted_count, batches). length (messages d (doc_key env name))))"
    by simp
next
  fix env :: env and d name and deleted_count :: nat and batches :: "nat list" and docs cnt d'
  assume a1: "messages_limit env d name 50 = Inr docs" and a2: "cnt = length docs"
    and a3: "cnt \<noteq> 0" and a4: "batch_commit env d name docs = Inr d'"
  from a1 have docs: "docs = take 50 (sort_key doc_id (messages d (doc_key env name)))"
    by (simp add: messages_limit_def split: option.splits)
  with a2 a3 have ne: "messages d (doc_key env name) \<noteq> []" by auto
  from a4 have "messages d' (doc_key env name) = delete_docs docs (messages d (doc_key env name))"
    by (auto simp add: batch_commit_def put_messages_def split: option.splits)
  with docs delete_docs_take_less[OF ne, of 50]
  show "((env, d', name, deleted_count + cnt, batches @ [cnt]), env, d, name, deleted_count, batches)
       \<in> measure (\<lambda>(env, d, name, deleted_count, batches). length (messages d (doc_key env name)))"
    by simp
qed

definition clear_history_v4 :: "env \<Rightarrow> db \<Rightarrow> session \<Rightarrow> response \<times> db \<times> nat list" where
  "clear_history_v4 env d s =
     (if \<not> authenticated s then (Json 401 [(''error'', JStr ''Unauthorized'')], d, [])
      else
        case clear_loop env d (username s) 0 [] of
          (Inl e, d', batches) \<Rightarrow> (Json 500 [(''error'', JStr e)], d', batches)
        | (Inr deleted_count, d', batches) \<Rightarrow>
            (Json 200 [(''success'', JBool True), (''deleted_count'', JInt deleted_count)], d', batches))"

section \<open>The history read\<close>

text \<open>
  What \<^verbatim>\<open>chat_page\<close> and \<^verbatim>\<open>chat\<close> iterate over,
  \<^verbatim>\<open>reversed(list(query.stream()))\<close> for the query
  \<^verbatim>\<open>order_by("timestamp", direction=DESCENDING).limit(n)\<close>, as a function of the stored
  collection.
\<close>

definition history_read :: "nat \<Rightarrow> message list \<Rightarrow> message list" where
  "history_read n ms = rev (take n (order_by_timestamp_desc ms))"

section \<open>Notions of the specification\<close>

text \<open>
  The turn list in the specification's words: every turn of the history read flattened
  into its user entry and its model entry, each only when its text is non-empty, and the
  incoming message last.
\<close>

definition flatten_turn :: "message \<Rightarrow> entry list" where
  "flatten_turn m =
     (case user_message m of None \<Rightarrow> [] | Some t \<Rightarrow> if t \<noteq> [] then [(''user'', t)] else []) @
     (case ai_response m of None \<Rightarrow> [] | Some t \<Rightarrow> if t \<noteq> [] then [(''model'', t)] else [])"

definition spec_turn_list :: "nat \<Rightarrow> message list \<Rightarrow> string \<Rightarrow> entry list" where
  "spec_turn_list k ms user_input =
     concat (map flatten_turn (history_read k ms)) @ [(''user'', user_input)]"

text \<open>
  A successful answer has status 200; an error answer is an \<^verbatim>\<open>{"error": text}\<close> body with
  a status from 400 on.
\<close>

fun is_success :: "response \<Rightarrow> bool" where
  "is_success (Json code body) = (code = 200)"
| "is_success _ = False"

fun is_error :: "response \<Rightarrow> bool" where
  "is_error (Json code [(key, JStr e)]) = (key = ''error'' \<and> 400 \<le> code)"
| "is_error _ = False"

text \<open>
  The system instruction in the specification's words: the parts in their fixed order
  (persona or default, the name sentence, goal or default, the special instructions when
  non-empty, the sentence on the user with the display name or the raw username), the
  empty ones left out, joined by single spaces and trimmed.
\<close>

definition spec_system_instruction :: "user_doc \<Rightarrow> string option \<Rightarrow> string" where
  "spec_system_instruction p name =
     strip (join '' '' (filter (\<lambda>part. part \<noteq> [])
       ([case agent_persona p of None \<Rightarrow> DEFAULT_PERSONA | Some t \<Rightarrow> t] @
        [''Your name is Alfred.''] @
        [case agent_goal p of None \<Rightarrow> DEFAULT_GOAL | Some t \<Rightarrow> t] @
        (case special_instructions p of None \<Rightarrow> [] | Some t \<Rightarrow> if t = [] then [] else [t]) @
        [''The user you are interacting with is named '' @
           (case user_display_name p of None \<Rightarrow> py_str name | Some n \<Rightarrow> n) @ ''.''])))"


definition credentials :: "string \<Rightarrow> string \<Rightarrow> form" where
  "credentials u pw = \<lparr>form_username = Some u, form_password = Some pw\<rparr>"



text \<open>The four fields of an Agent Profile.\<close>

definition profile_fields ::
  "user_doc \<Rightarrow> string option \<times> string option \<times> string option \<times> string option" where
  "profile_fields p = (agent_persona p, agent_goal p, special_instructions p, user_display_name p)"

section \<open>Sample inputs\<close>

text \<open>
  Concrete services, stores and sessions on which the theorems below are instantiated:
  a bcrypt whose hash of \<open>p\<close> is \<open>hash:p\<close> and whose comparison raises on a password
  of more than 72 bytes, a model that answers \<open>Hello\<close>, a store that
  raises nothing, and a history of \<open>n\<close> turns of the user \<open>alice\<close> written at the times
  \<open>0 .. n - 1\<close>.
\<close>

definition sample_env :: env where
  "sample_env = \<lparr>checkpw = (\<lambda>p h. if 72 < length p then Inl ''ValueError'' else Inr (h = ''hash:'' @ p)),
     hashpw = (\<lambda>p. ''hash:'' @ p), client = True,
     generate_content = (\<lambda>sys conv. Inr ''Hello''), recognize = (\<lambda>a. Inr [[''hi'']]),
     synthesize_speech = (\<lambda>t. Inr [1, 2, 3]), b64encode = (\<lambda>b. ''AQID''),
     strftime = (\<lambda>t. ''Jan 01, 12:00 AM''), db_raises = (\<lambda>c. None),
     server_time = 100, auto_id = 1000, auto_doc = ''auto''\<rparr>"

definition sample_turn :: "nat \<Rightarrow> message" where
  "sample_turn i = \<lparr>doc_id = i, user = Some ''alice'', user_message = Some ''q'',
     ai_response = Some ''a'', timestamp = i\<rparr>"

definition sample_db :: "nat \<Rightarrow> db" where
  "sample_db n = \<lparr>users = [], profiles = Map.empty,
     messages = (\<lambda>u. if u = ''alice'' then map sample_turn [0..<n] else [])\<rparr>"

definition alice :: session where
  "alice = \<lparr>authenticated = True, username = Some ''alice'', is_admin = False\<rparr>"

text \<open>The sample services with a \<^verbatim>\<open>messages.add\<close> that raises.\<close>

definition failing_add_env :: env where
  "failing_add_env = sample_env\<lparr>db_raises := (\<lambda>c. if c = MessagesAdd then Some ''deadline exceeded'' else None)\<rparr>"

text \<open>The sample store of three turns after \<open>alice\<close>'s profile has been written.\<close>

definition healed_db :: db where
  "healed_db = (sample_db 3)\<lparr>users := [(''alice'', resolve 100 (default_profile (Some ''alice'')))]\<rparr>"

text \<open>
  A profile whose persona is the empty string and whose goal is missing; and the sample
  services with a text-to-speech that raises.
\<close>

definition blank_profile :: user_doc where
  "blank_profile = empty_doc\<lparr>agent_persona := Some [], special_instructions := Some ''Be brief.'',
     user_display_name := Some ''Al''\<rparr>"

definition failing_tts_env :: env where
  "failing_tts_env = sample_env\<lparr>synthesize_speech := (\<lambda>t. Inl ''quota exceeded'')\<rparr>"

text \<open>
  A store with the credential of \<open>bob\<close> (password \<open>secret\<close>), a session that is not
  logged in, and a session with the admin flag.
\<close>

definition credentials_db :: db where
  "credentials_db = \<lparr>users = [(''bob'', empty_doc\<lparr>hashed_password := Some ''hash:secret''\<rparr>)],
     profiles = Map.empty, messages = (\<lambda>u. [])\<rparr>"

definition anonymous :: session where
  "anonymous = \<lparr>authenticated = False, username = None, is_admin = False\<rparr>"

definition admin_session :: session where
  "admin_session = \<lparr>authenticated = True, username = Some ''admin'', is_admin = True\<rparr>"

text \<open>The sample services with a model call that raises.\<close>

definition failing_model_env :: env where
  "failing_model_env = sample_env\<lparr>generate_content := (\<lambda>sys conv. Inl ''deadline exceeded'')\<rparr>"

section \<open>Facts about the store\<close>

declare clear_loop.simps [simp del]

lemma distinct_delete_docs:
  "distinct (map doc_id ms) \<Longrightarrow> distinct (map doc_id (delete_docs docs ms))"
  unfolding delete_docs_def by (rule distinct_map_filter)

lemma length_delete_docs_batch:
  assumes dist: "distinct (map doc_id ms)"
  shows "length (delete_docs (take n (sort_key doc_id ms)) ms) = length ms - n"
proof -
  let ?docs = "take n (sort_key doc_id ms)"
  let ?P = "\<lambda>m. doc_id m \<in> set (map doc_id ?docs)"
  have dms: "distinct ms" using dist by (simp add: distinct_map)
  have inj: "inj_on doc_id (set ms)" using dist by (simp add: distinct_map)
  have sub: "set ?docs \<subseteq> set ms" by (metis set_take_subset set_sort)
  have ddocs: "distinct ?docs" using dms by simp 
  have "{x. ?P x} \<inter> set ms = set ?docs"
  proof
    show "{x. ?P x} \<inter> set ms \<subseteq> set ?docs"
    proof
      fix x assume "x \<in> {x. ?P x} \<inter> set ms"
      then have xm: "x \<in> set ms" and "doc_id x \<in> doc_id ` set ?docs" by auto
      then obtain y where y: "y \<in> set ?docs" "doc_id x = doc_id y" by auto
      with sub have "y \<in> set ms" by auto
      with inj xm y(2) have "x = y" by (auto dest: inj_onD)
      with y(1) show "x \<in> set ?docs" by simp
    qed
    show "set ?docs \<subseteq> {x. ?P x} \<inter> set ms" using sub by auto
  qed
  then have "length (filter ?P ms) = card (set ?docs)"
    using dms by (simp add: distinct_length_filter)
  also have "\<dots> = length ?docs" using ddocs by (rule distinct_card)
  also have "\<dots> = min n (length ms)" by (simp add: min.commute)
  finally have in_len: "length (filter ?P ms) = min n (length ms)" .
  have "length (filter ?P ms) + length (filter (\<lambda>m. \<not> ?P m) ms) = length ms"
    by (rule sum_length_filter_compl)
  with in_len show ?thesis unfolding delete_docs_def by simp 
qed

lemma messages_put_messages [simp]:
  "messages (put_messages d k ms) k' = (if k' = k then ms else messages d k')"
  by (simp add: put_messages_def)

lemma users_put_messages [simp]: "users (put_messages d k ms) = users d"
  by (simp add: put_messages_def)

lemma profiles_put_messages [simp]: "profiles (put_messages d k ms) = profiles d"
  by (simp add: put_messages_def)

lemma put_messages_twice [simp]:
  "put_messages (put_messages d k a) k b = put_messages d k b"
  by (simp add: put_messages_def)

text \<open>
  Document names stay distinct in every collection: \<^verbatim>\<open>add\<close> refuses a name that is taken,
  and deleting takes documents away.
\<close>

lemma messages_add_names_distinct:
  assumes "\<forall>k. distinct (map doc_id (messages d k))" and "messages_add env d name m = Inr d'"
  shows "\<forall>k. distinct (map doc_id (messages d' k))"
  using assms
  by (auto simp: messages_add_def put_messages_def split: option.splits if_splits)

lemma batch_commit_names_distinct:
  assumes "\<forall>k. distinct (map doc_id (messages d k))" and "batch_commit env d name docs = Inr d'"
  shows "\<forall>k. distinct (map doc_id (messages d' k))"
  using assms
  by (auto simp: batch_commit_def put_messages_def distinct_delete_docs split: option.splits)

lemma put_messages_same: "messages d k = ms \<Longrightarrow> put_messages d k ms = d"
  by (simp add: put_messages_def fun_upd_idem)

text \<open>
  The loop of \<^verbatim>\<open>clear_history\<close> on a store that raises nothing, over a collection whose
  document names are distinct: it returns the number of documents it found added to the
  count it started with, leaves the collection empty, and every batch it committed held
  at most 50 documents, all batches together every document.
\<close>

lemma clear_loop_complete:
  assumes nf: "db_raises env MessagesStream = None" "db_raises env BatchCommit = None"
  shows "distinct (map doc_id (messages d (doc_key env name))) \<Longrightarrow>
    \<exists>bs. clear_loop env d name n batches =
            (Inr (n + length (messages d (doc_key env name))),
             put_messages d (doc_key env name) [], batches @ bs)
        \<and> (\<forall>b \<in> set bs. b \<le> 50) \<and> sum_list bs = length (messages d (doc_key env name))"
  using nf
proof (induction env d name n batches rule: clear_loop.induct)
  case (1 env d name deleted_count batches)
  let ?k = "doc_key env name"
  let ?ms = "messages d ?k"
  let ?docs = "take 50 (sort_key doc_id ?ms)"
  define d' where "d' = put_messages d ?k (delete_docs ?docs ?ms)"
  have lim: "messages_limit env d name 50 = Inr ?docs"
    using "1.prems" by (simp add: messages_limit_def)
  have com: "batch_commit env d name ?docs = Inr d'"
    using "1.prems" by (simp add: batch_commit_def d'_def)
  have len: "length (delete_docs ?docs ?ms) = length ?ms - 50"
    using "1.prems"(1) by (rule length_delete_docs_batch)
  have step: "clear_loop env d name deleted_count batches =
      (if length ?docs = 0 then (Inr deleted_count, d, batches)
       else if length ?docs < 50
            then (Inr (deleted_count + length ?docs), d', batches @ [length ?docs])
            else clear_loop env d' name (deleted_count + length ?docs) (batches @ [length ?docs]))"
    by (subst clear_loop.simps) (simp only: lim com Let_def sum.case)
  have ldocs: "length ?docs = min 50 (length ?ms)" by (simp add: min.commute)
  have msd': "messages d' ?k = delete_docs ?docs ?ms" by (simp add: d'_def)
  have putd': "put_messages d' ?k [] = put_messages d ?k []" by (simp add: d'_def)
  show ?case
  proof (cases "length ?ms = 0")
    case True
    then have e: "put_messages d ?k [] = d" by (simp add: put_messages_same)
    have r: "clear_loop env d name deleted_count batches = (Inr deleted_count, d, batches)"
      unfolding step ldocs using True by simp
    show ?thesis
      by (rule exI[of _ "[]"], simp only: r e) (use True in simp)
  next
    case False
    note ne = this
    show ?thesis
    proof (cases "length ?ms < 50")
      case True
      with len have e: "delete_docs ?docs ?ms = []" by simp
      have "clear_loop env d name deleted_count batches =
          (Inr (deleted_count + length ?ms), put_messages d ?k [], batches @ [length ?ms])"
        unfolding step ldocs d'_def e using True ne by simp
      with True show ?thesis
        by (intro exI[of _ "[length ?ms]"]) simp
    next
      case False
      then have ld: "length ?docs = 50" by simp
      have c1: "length ?docs \<noteq> 0" and c2: "\<not> length ?docs < 50" using ld by simp_all
      have dist': "distinct (map doc_id (messages d' (doc_key env name)))"
        using "1.prems"(1) by (simp add: msd' distinct_delete_docs)
      from "1.IH"[OF lim refl c1 com c2 dist' "1.prems"(2,3)]
      obtain bs where bs: "clear_loop env d' name (deleted_count + length ?docs) (batches @ [length ?docs]) =
            (Inr (deleted_count + length ?docs + length (messages d' ?k)),
             put_messages d' ?k [], (batches @ [length ?docs]) @ bs)"
         "\<forall>b \<in> set bs. b \<le> 50" "sum_list bs = length (messages d' ?k)"
        by blast
      have "clear_loop env d name deleted_count batches =
              clear_loop env d' name (deleted_count + length ?docs) (batches @ [length ?docs])"
        unfolding step using c1 c2 by simp
      with bs False show ?thesis
        unfolding putd' msd' len ld
        by (intro exI[of _ "50 # bs"]) simp
    qed
  qed
qed


lemma delete_docs_all: "set ms \<subseteq> set docs \<Longrightarrow> delete_docs docs ms = []"
  unfolding delete_docs_def by (auto simp: filter_empty_conv)

lemma delete_docs_Nil [simp]: "delete_docs [] ms = ms"
  by (simp add: delete_docs_def)

lemma delete_docs_Cons: "delete_docs docs (delete_docs [m] ms) = delete_docs (m # docs) ms"
  unfolding delete_docs_def by (auto intro: filter_cong)

lemma delete_each_complete:
  "db_raises env DocDelete = None \<Longrightarrow>
   delete_each env d name docs =
     (None, put_messages d (doc_key env name) (delete_docs docs (messages d (doc_key env name))))"
proof (induction docs arbitrary: d)
  case Nil
  then show ?case by (simp add: put_messages_same)
next
  case (Cons m docs)
  then show ?case by (simp add: doc_delete_def delete_docs_Cons)
qed

section \<open>Clearing the history (C5)\<close>

text \<open>
  C5, amended. From v3 on (the code of v4 is the one of v3, v3.1 and v5), for an
  authenticated session, a store that raises nothing and a history of \<open>M\<close> documents with
  distinct names, \<^verbatim>\<open>clear_history\<close> returns (the function is total, so it always does)
  \<^verbatim>\<open>{"success": true, "deleted_count": M}\<close>, leaves the caller's history empty, and has
  committed batches of at most 50 documents that add up to \<open>M\<close>. In v2 the same request
  deletes the documents one at a time, leaves the history empty as well, and answers
  \<^verbatim>\<open>{"success": true}\<close> with no count.
\<close>

theorem clear_history_complete:
  assumes "authenticated s"
    and "db_raises env MessagesStream = None" and "db_raises env BatchCommit = None"
    and "db_raises env DocDelete = None"
    and "distinct (map doc_id (messages d (doc_key env (username s))))"
  shows "(\<exists>bs. clear_history_v4 env d s =
            (Json 200 [(''success'', JBool True),
                       (''deleted_count'', JInt (length (messages d (doc_key env (username s)))))],
             put_messages d (doc_key env (username s)) [], bs)
          \<and> (\<forall>b \<in> set bs. b \<le> 50)
          \<and> sum_list bs = length (messages d (doc_key env (username s))))
       \<and> clear_history_v2 env d s =
            (Json 200 [(''success'', JBool True)], put_messages d (doc_key env (username s)) [])"
proof
  from clear_loop_complete[OF assms(2,3,5), of 0 "[]"] assms(1)
  show "\<exists>bs. clear_history_v4 env d s =
            (Json 200 [(''success'', JBool True),
                       (''deleted_count'', JInt (length (messages d (doc_key env (username s)))))],
             put_messages d (doc_key env (username s)) [], bs)
          \<and> (\<forall>b \<in> set bs. b \<le> 50)
          \<and> sum_list bs = length (messages d (doc_key env (username s)))"
    by (auto simp: clear_history_v4_def)
next
  show "clear_history_v2 env d s =
            (Json 200 [(''success'', JBool True)], put_messages d (doc_key env (username s)) [])"
    using assms(1,2,4)
    by (simp add: clear_history_v2_def messages_stream_def delete_each_complete delete_docs_all)
qed

text \<open>The theorem on a history of 120 turns.\<close>

theorem clear_history_complete_witness:
  "authenticated alice \<and> db_raises sample_env MessagesStream = None
   \<and> distinct (map doc_id (messages (sample_db 120) (doc_key sample_env (username alice))))
   \<and> (\<exists>bs. clear_history_v4 sample_env (sample_db 120) alice =
            (Json 200 [(''success'', JBool True), (''deleted_count'', JInt 120)],
             put_messages (sample_db 120) ''alice'' [], bs)
          \<and> (\<forall>b \<in> set bs. b \<le> 50) \<and> sum_list bs = 120)
   \<and> clear_history_v2 sample_env (sample_db 120) alice =
        (Json 200 [(''success'', JBool True)], put_messages (sample_db 120) ''alice'' [])"
proof -
  have a: "authenticated alice" by (simp add: alice_def)
  have f: "db_raises sample_env MessagesStream = None" "db_raises sample_env BatchCommit = None"
    "db_raises sample_env DocDelete = None" by (simp_all add: sample_env_def)
  have k: "doc_key sample_env (username alice) = ''alice''" by (simp add: doc_key_def alice_def)
  have m: "messages (sample_db 120) ''alice'' = map sample_turn [0..<120]" by (simp add: sample_db_def)
  have "map doc_id (map sample_turn [0..<120]) = [0..<120]"
    by (simp add: sample_turn_def comp_def map_idI)
  then have dist: "distinct (map doc_id (messages (sample_db 120) (doc_key sample_env (username alice))))"
    unfolding k m by simp
  from clear_history_complete[OF a f dist] a f(1) dist show ?thesis
    unfolding k m by simp
qed

text \<open>
  C5 as stated fails on v2: over a history of one turn the answer of \<^verbatim>\<open>clear_history\<close>
  carries no \<^verbatim>\<open>deleted_count\<close>.
\<close>

theorem clear_history_v2_no_count:
  "length (messages (sample_db 1) ''alice'') = 1
   \<and> fst (clear_history_v2 sample_env (sample_db 1) alice) = Json 200 [(''success'', JBool True)]
   \<and> fst (clear_history_v2 sample_env (sample_db 1) alice)
       \<noteq> Json 200 [(''success'', JBool True), (''deleted_count'', JInt 1)]"
  by (simp add: clear_history_v2_def messages_stream_def alice_def sample_env_def sample_db_def
      doc_key_def doc_delete_def delete_docs_def put_messages_def sample_turn_def)

section \<open>Order of a history read (C7)\<close>

lemma history_read_drop:
  "history_read n ms = drop (length ms - n) (sort_key order_key ms)"
  by (simp add: history_read_def order_by_timestamp_desc_def rev_take)

lemma sorted_timestamp_sort_key: "sorted (map timestamp (sort_key order_key ms))"
proof -
  have "sorted (map order_key (sort_key order_key ms))" by (rule sorted_sort_key)
  then have "sorted_wrt (\<lambda>x y. order_key x \<le> order_key y) (sort_key order_key ms)"
    by (simp add: sorted_map)
  then have "sorted_wrt (\<lambda>x y. timestamp x \<le> timestamp y) (sort_key order_key ms)"
    by (rule sorted_wrt_mono_rel[rotated]) (auto simp: order_key_def less_eq_prod_def)
  then show ?thesis by (simp add: sorted_map)
qed

lemma sorted_history_read: "sorted (map timestamp (history_read n ms))"
  unfolding history_read_drop drop_map[symmetric]
  by (rule sorted_wrt_drop) (rule sorted_timestamp_sort_key)

lemma nth_not_in_take:
  assumes "distinct xs" "n \<le> i" "i < length xs"
  shows "xs ! i \<notin> set (take n xs)"
proof -
  have "xs ! i \<in> set (drop n xs)"
    using assms(2,3) by (metis Cons_nth_drop_Suc in_set_dropD list.set_intros(1) set_drop_subset_set_drop subsetD)
  moreover have "set (take n xs) \<inter> set (drop n xs) = {}"
    using assms(1) by (simp add: set_take_disj_set_drop_if_distinct)
  ultimately show ?thesis by blast
qed

lemma older_not_in_history_read:
  assumes "distinct (map doc_id ms)" "n \<le> i" "i < length ms"
  shows "order_by_timestamp_desc ms ! i \<notin> set (history_read n ms)"
proof -
  have "distinct ms" using assms(1) by (simp add: distinct_map)
  then have "distinct (order_by_timestamp_desc ms)" by (simp add: order_by_timestamp_desc_def)
  moreover have "i < length (order_by_timestamp_desc ms)"
    using assms(3) by (simp add: order_by_timestamp_desc_def)
  ultimately show ?thesis
    using assms(2) by (simp add: history_read_def nth_not_in_take)
qed


lemma messages_query_history_read:
  "db_raises env MessagesQuery = None \<Longrightarrow>
   messages_query env d name n = Inr (rev (history_read n (messages d (doc_key env name))))"
  by (simp add: messages_query_def history_read_def)

text \<open>
  C7, amended. Both history reads (the page of \<^verbatim>\<open>chat_page\<close>, v2 and v4, and the query
  \<^verbatim>\<open>chat\<close> runs for the model's context) iterate over \<open>history_read 10\<close> of the caller's
  collection. A history read of size \<open>n\<close> is in non-decreasing timestamp order, it is the
  last \<open>n\<close> documents of the collection in ascending order, and, the documents having
  distinct names, no document from the \<open>(n+1)\<close>-th most recent on appears in it.
\<close>

theorem history_read_recent:
  assumes auth: "authenticated s" and ok: "db_raises env MessagesQuery = None"
    and ms: "ms = messages d (doc_key env name)" and dist: "distinct (map doc_id ms)"
    and name: "name = username s"
  shows "sorted (map timestamp (history_read n ms))
       \<and> history_read n ms = drop (length ms - n) (sort_key order_key ms)
       \<and> (\<forall>i. n \<le> i \<and> i < length ms \<longrightarrow>
             order_by_timestamp_desc ms ! i \<notin> set (history_read n ms))
       \<and> messages_query env d name 10 = Inr (rev (history_read 10 ms))
       \<and> fst (chat_page_v4 env d s) =
            RenderChat ''index.html'' name (map (show_turn env) (history_read 10 ms))
       \<and> chat_page_v2 env d s =
            RenderRaw ''index.html'' name
              (map (\<lambda>data. (data, strftime env (timestamp data))) (history_read 10 ms))"
proof (intro conjI)
  show "sorted (map timestamp (history_read n ms))" by (rule sorted_history_read)
  show "history_read n ms = drop (length ms - n) (sort_key order_key ms)"
    by (rule history_read_drop)
  show "\<forall>i. n \<le> i \<and> i < length ms \<longrightarrow>
          order_by_timestamp_desc ms ! i \<notin> set (history_read n ms)"
    using dist by (simp add: older_not_in_history_read)
  show q: "messages_query env d name 10 = Inr (rev (history_read 10 ms))"
    unfolding ms using ok by (rule messages_query_history_read)
  show "fst (chat_page_v4 env d s) =
          RenderChat ''index.html'' name (map (show_turn env) (history_read 10 ms))"
    using auth q by (simp add: chat_page_v4_def name)
  show "chat_page_v2 env d s =
          RenderRaw ''index.html'' name
            (map (\<lambda>data. (data, strftime env (timestamp data))) (history_read 10 ms))"
    using auth q by (simp add: chat_page_v2_def name)
qed

text \<open>The theorem on a history of twelve turns: the two oldest stay out.\<close>

theorem history_read_recent_witness:
  "authenticated alice \<and> db_raises sample_env MessagesQuery = None
   \<and> distinct (map doc_id (messages (sample_db 12) ''alice''))
   \<and> sorted (map timestamp (history_read 10 (messages (sample_db 12) ''alice'')))
   \<and> history_read 10 (messages (sample_db 12) ''alice'') = map sample_turn [2..<12]
   \<and> order_by_timestamp_desc (messages (sample_db 12) ''alice'') ! 10 = sample_turn 1
   \<and> sample_turn 1 \<notin> set (history_read 10 (messages (sample_db 12) ''alice''))
   \<and> fst (chat_page_v4 sample_env (sample_db 12) alice) =
        RenderChat ''index.html'' (Some ''alice'') (map (show_turn sample_env) (map sample_turn [2..<12]))"
proof -
  have a: "authenticated alice" by (simp add: alice_def)
  have f: "db_raises sample_env MessagesQuery = None" by (simp add: sample_env_def)
  have k: "messages (sample_db 12) ''alice'' =
      messages (sample_db 12) (doc_key sample_env (Some ''alice''))"
    by (simp add: doc_key_def)
  have u: "Some ''alice'' = username alice" by (simp add: alice_def)
  have m: "messages (sample_db 12) ''alice'' = map sample_turn [0..<12]" by (simp add: sample_db_def)
  have "map doc_id (map sample_turn [0..<12]) = [0..<12]"
    by (simp add: sample_turn_def comp_def map_idI)
  then have dist: "distinct (map doc_id (messages (sample_db 12) ''alice''))"
    unfolding m by simp
  have e: "drop (length (messages (sample_db 12) ''alice'') - 10)
             (sort_key order_key (messages (sample_db 12) ''alice'')) = map sample_turn [2..<12]"
    by code_simp
  have i: "order_by_timestamp_desc (messages (sample_db 12) ''alice'') ! 10 = sample_turn 1"
    by code_simp
  have l: "length (messages (sample_db 12) ''alice'') = 12" by (simp add: m)
  from history_read_recent[OF a f k dist u, of 10] have
    h: "sorted (map timestamp (history_read 10 (messages (sample_db 12) ''alice'')))"
       "history_read 10 (messages (sample_db 12) ''alice'') =
          drop (length (messages (sample_db 12) ''alice'') - 10)
            (sort_key order_key (messages (sample_db 12) ''alice''))"
       "\<forall>i. 10 \<le> i \<and> i < length (messages (sample_db 12) ''alice'') \<longrightarrow>
           order_by_timestamp_desc (messages (sample_db 12) ''alice'') ! i
             \<notin> set (history_read 10 (messages (sample_db 12) ''alice''))"
       "fst (chat_page_v4 sample_env (sample_db 12) alice) =
          RenderChat ''index.html'' (Some ''alice'')
            (map (show_turn sample_env) (history_read 10 (messages (sample_db 12) ''alice'')))"
    by blast+
  from h(3) l have "order_by_timestamp_desc (messages (sample_db 12) ''alice'') ! 10
             \<notin> set (history_read 10 (messages (sample_db 12) ''alice''))" by simp
  with a f dist h(1,2,4) e i show ?thesis by simp
qed

text \<open>
  C7 as stated fails: over a history of eleven turns the read of size ten returns the
  eleventh-oldest turn (the newest one), and the page shows it.
\<close>

theorem history_read_holds_eleventh_oldest:
  "length (messages (sample_db 11) ''alice'') = 11
   \<and> sort_key order_key (messages (sample_db 11) ''alice'') ! 10 = sample_turn 10
   \<and> sample_turn 10 \<in> set (history_read 10 (messages (sample_db 11) ''alice''))
   \<and> fst (chat_page_v4 sample_env (sample_db 11) alice) =
        RenderChat ''index.html'' (Some ''alice'') (map (show_turn sample_env) (map sample_turn [1..<11]))"
  by code_simp

section \<open>Facts about a chat turn\<close>

lemma turn_step_flatten: "turn_step conv m = conv @ flatten_turn m"
  by (simp add: turn_step_def flatten_turn_def Let_def split: option.splits)

lemma foldl_turn_step: "foldl turn_step conv ms = conv @ concat (map flatten_turn ms)"
  by (induction ms arbitrary: conv) (simp_all add: turn_step_flatten)

lemma current_conversation_spec:
  "current_conversation (take k (order_by_timestamp_desc ms)) user_input = spec_turn_list k ms user_input"
  by (simp add: current_conversation_def spec_turn_list_def history_read_def foldl_turn_step)

lemma get_user_profile_data_messages:
  "get_user_profile_data env d u = Inr (p, d1) \<Longrightarrow> messages d1 = messages d"
  by (auto simp: get_user_profile_data_def users_set_merge_def split: sum.splits option.splits)

lemma get_or_create_user_profile_messages:
  "get_or_create_user_profile env d u = Inr (p, d1) \<Longrightarrow> messages d1 = messages d"
  by (auto simp: get_or_create_user_profile_def profile_set_def split: sum.splits option.splits)

lemma get_user_profile_data_returns:
  "db_raises env UsersGet = None \<Longrightarrow> db_raises env UsersSet = None \<Longrightarrow>
   \<exists>p d1. get_user_profile_data env d u = Inr (p, d1)"
  by (auto simp: get_user_profile_data_def users_get_def users_set_merge_def split: sum.splits option.splits)

lemma get_or_create_user_profile_returns:
  "db_raises env ProfileGet = None \<Longrightarrow> db_raises env ProfileSet = None \<Longrightarrow>
   \<exists>p d1. get_or_create_user_profile env d u = Inr (p, d1)"
  by (auto simp: get_or_create_user_profile_def profile_get_def profile_set_def split: sum.splits option.splits)

text \<open>What the try block of chat does once the profile is loaded and the history read.\<close>

lemma chat_turn_loaded:
  assumes "load env d (Some name) = Inr (p, d1)" and "messages d1 = messages d"
    and "db_raises env MessagesQuery = None"
  shows "chat_turn load env d name user_input =
    (let sys = system_instruction p (Some name);
         conv = spec_turn_list 10 (messages d name) user_input;
         m = new_message env (Some name) user_input
     in case generate_content env sys conv of
          Inl e \<Rightarrow> (Json 500 [(''error'', JStr e)], d1, [Generate sys conv])
        | Inr t \<Rightarrow>
            (case messages_add env d1 (Some name) (m t) of
               Inl e \<Rightarrow> (Json 500 [(''error'', JStr e)], d1, [Generate sys conv, AddMessage name (m t)])
             | Inr d2 \<Rightarrow> (Json 200 [(''response'', JStr t)], d2, [Generate sys conv, AddMessage name (m t)])))"
  using assms
  by (auto simp: chat_turn_def messages_query_def current_conversation_spec doc_key_def Let_def
      split: sum.splits)

lemma chat_turn_not_loaded:
  "load env d (Some name) = Inl e \<Longrightarrow>
   chat_turn load env d name user_input = (Json 500 [(''error'', JStr e)], d, [])"
  by (simp add: chat_turn_def)

lemma chat_turn_no_history:
  "load env d (Some name) = Inr (p, d1) \<Longrightarrow> db_raises env MessagesQuery = Some e \<Longrightarrow>
   chat_turn load env d name user_input = (Json 500 [(''error'', JStr e)], d1, [])"
  by (simp add: chat_turn_def messages_query_def)

lemma chat_turn_generate:
  assumes pres: "\<forall>p d1. load env d (Some name) = Inr (p, d1) \<longrightarrow> messages d1 = messages d"
    and ev: "Generate sys conv \<in> set (snd (snd (chat_turn load env d name user_input)))"
  shows "conv = spec_turn_list 10 (messages d name) user_input"
proof (cases "load env d (Some name)")
  case (Inl e)
  with ev show ?thesis by (simp add: chat_turn_not_loaded)
next
  case (Inr r)
  obtain p d1 where r: "r = (p, d1)" by (cases r)
  note l = Inr[unfolded r]
  from pres l have m1: "messages d1 = messages d" by blast
  show ?thesis
  proof (cases "db_raises env MessagesQuery")
    case None
    from ev show ?thesis
      unfolding chat_turn_loaded[of load env d name p d1 user_input, OF l m1 None]
      by (auto simp: Let_def split: sum.splits)
  next
    case (Some e)
    with ev l show ?thesis by (simp add: chat_turn_no_history)
  qed
qed

lemma chat_turn_calls_model:
  assumes "load env d (Some name) = Inr (p, d1)" and "messages d1 = messages d"
    and "db_raises env MessagesQuery = None"
  shows "\<exists>rest. snd (snd (chat_turn load env d name user_input)) =
          Generate (system_instruction p (Some name)) (spec_turn_list 10 (messages d name) user_input) # rest"
  unfolding chat_turn_loaded[of load env d name p d1 user_input, OF assms]
  by (auto simp: Let_def split: sum.splits)


lemma sample_env_simps [simp]:
  "client sample_env" "db_raises sample_env c = None"
  "generate_content sample_env sys conv = Inr ''Hello''"
  "server_time sample_env = 100" "auto_id sample_env = 1000"
  "checkpw sample_env pw h = (if 72 < length pw then Inl ''ValueError'' else Inr (h = ''hash:'' @ pw))"
  "hashpw sample_env pw = ''hash:'' @ pw"
  "recognize sample_env a = Inr [[''hi'']]" "synthesize_speech sample_env t = Inr [1, 2, 3]"
  "b64encode sample_env b = ''AQID''"
  by (simp_all add: sample_env_def)

lemma failing_add_env_simps [simp]:
  "client failing_add_env"
  "db_raises failing_add_env c = (if c = MessagesAdd then Some ''deadline exceeded'' else None)"
  "generate_content failing_add_env sys conv = Inr ''Hello''"
  "server_time failing_add_env = 100" "auto_id failing_add_env = 1000"
  by (simp_all add: failing_add_env_def sample_env_def)

lemma messages_add_result:
  "messages_add env d name m = Inr d2 \<Longrightarrow>
   messages d2 u = (if u = doc_key env name then messages d (doc_key env name) @ [m] else messages d u)"
  by (auto simp: messages_add_def split: option.splits if_splits)

lemma chat_turn_count:
  assumes pres: "\<forall>p d1. load env d (Some name) = Inr (p, d1) \<longrightarrow> messages d1 = messages d"
    and res: "chat_turn load env d name user_input = (r, d', tr)"
  shows "(is_success r \<longrightarrow>
            (\<exists>t. r = Json 200 [(''response'', JStr t)] \<and>
                 (\<forall>u. messages d' u =
                    (if u = name then messages d name @ [new_message env (Some name) user_input t]
                     else messages d u))))
       \<and> (\<not> is_success r \<longrightarrow> is_error r \<and> messages d' = messages d)"
proof (cases "load env d (Some name)")
  case (Inl e)
  with res show ?thesis by (auto simp: chat_turn_not_loaded)
next
  case (Inr x)
  obtain p d1 where x: "x = (p, d1)" by (cases x)
  note l = Inr[unfolded x]
  from pres l have m1: "messages d1 = messages d" by blast
  show ?thesis
  proof (cases "db_raises env MessagesQuery")
    case (Some e)
    with res l m1 show ?thesis by (auto simp: chat_turn_no_history)
  next
    case None
    note ct = chat_turn_loaded[of load env d name p d1 user_input, OF l m1 None]
    let ?sys = "system_instruction p (Some name)"
    let ?conv = "spec_turn_list 10 (messages d name) user_input"
    show ?thesis
    proof (cases "generate_content env ?sys ?conv")
      case (Inl e)
      with res m1 show ?thesis unfolding ct by (auto simp: Let_def)
    next
      case (Inr t)
      note g = this
      show ?thesis
      proof (cases "messages_add env d1 (Some name) (new_message env (Some name) user_input t)")
        case (Inl e)
        with res m1 g show ?thesis unfolding ct by (auto simp: Let_def)
      next
        case (Inr d2)
        from messages_add_result[OF Inr] m1
        have "\<forall>u. messages d2 u =
                (if u = name then messages d name @ [new_message env (Some name) user_input t]
                 else messages d u)"
          by (simp add: doc_key_def)
        with res g Inr show ?thesis unfolding ct by (auto simp: Let_def)
      qed
    qed
  qed
qed

lemma chat_v5_v4: "\<not> authenticated s \<or> client env \<Longrightarrow> chat_v5 env d s jm = chat_v4 env d s jm"
  by (auto simp: chat_v5_def chat_v4_def)

lemma sample_profile_load:
  "get_user_profile_data sample_env (sample_db 3) (Some ''alice'') =
      Inr (default_profile (Some ''alice''), healed_db)"
  "get_user_profile_data failing_add_env (sample_db 3) (Some ''alice'') =
      Inr (default_profile (Some ''alice''), healed_db)"
  by (simp_all add: get_user_profile_data_def users_get_def users_set_merge_def healed_db_def
      sample_db_def doc_key_def merge_doc_def over_def default_profile_def resolve_def empty_doc_def)

lemma healed_db_messages: "messages healed_db = messages (sample_db 3)"
  by (simp add: healed_db_def)

lemma chat_v4_sample:
  "chat_v4 sample_env (sample_db 3) alice json_message =
     (Json 200 [(''response'', JStr ''Hello'')],
      put_messages healed_db ''alice''
        (messages (sample_db 3) ''alice'' @
           [new_message sample_env (Some ''alice'')
              (case json_message of None \<Rightarrow> [] | Some t \<Rightarrow> t) ''Hello'']),
      [Generate (system_instruction (default_profile (Some ''alice'')) (Some ''alice''))
         (spec_turn_list 10 (messages (sample_db 3) ''alice'')
            (case json_message of None \<Rightarrow> [] | Some t \<Rightarrow> t)),
       AddMessage ''alice'' (new_message sample_env (Some ''alice'')
          (case json_message of None \<Rightarrow> [] | Some t \<Rightarrow> t) ''Hello'')])"
proof -
  have q: "db_raises sample_env MessagesQuery = None" by simp
  have add: "messages_add sample_env healed_db (Some ''alice'') (new_message sample_env (Some ''alice'') t ''Hello'') =
      Inr (put_messages healed_db ''alice''
             (messages (sample_db 3) ''alice'' @ [new_message sample_env (Some ''alice'') t ''Hello'']))"
    for t
    by (simp add: messages_add_def doc_key_def healed_db_messages)
       (simp add: sample_db_def sample_turn_def upt_rec new_message_def)
  show ?thesis
    unfolding chat_v4_def
    by (simp add: alice_def Let_def add
        chat_turn_loaded[of get_user_profile_data sample_env "sample_db 3" "''alice''" _ healed_db,
          OF sample_profile_load(1) healed_db_messages q])
qed

lemma chat_v4_failing_add:
  "chat_v4 failing_add_env (sample_db 3) alice (Some ''Hi'') =
      (Json 500 [(''error'', JStr ''deadline exceeded'')], healed_db,
       [Generate (system_instruction (default_profile (Some ''alice'')) (Some ''alice''))
          (spec_turn_list 10 (messages (sample_db 3) ''alice'') ''Hi''),
        AddMessage ''alice'' (new_message failing_add_env (Some ''alice'') ''Hi'' ''Hello'')])"
proof -
  have q: "db_raises failing_add_env MessagesQuery = None" by simp
  have add: "messages_add failing_add_env healed_db (Some ''alice'') m = Inl ''deadline exceeded''" for m
    by (simp add: messages_add_def)
  show ?thesis
    unfolding chat_v4_def
    by (simp add: alice_def Let_def add
        chat_turn_loaded[of get_user_profile_data failing_add_env "sample_db 3" "''alice''" _ healed_db,
          OF sample_profile_load(2) healed_db_messages q])
qed

section \<open>One turn per successful chat (C2)\<close>

text \<open>
  C2. Whatever \<^verbatim>\<open>POST /chat\<close> (v4) returns: when the answer is a success (status 200),
  the session was authenticated and exactly one Message Turn, holding the incoming
  message and the model's text, has been appended to the caller's history, every other
  history being unchanged; when it is not, the answer is an error and no history has
  changed. The second case covers a \<^verbatim>\<open>messages.add\<close> that raises after the model has
  answered.
\<close>

theorem chat_appends_one_turn:
  assumes name: "name = (case username s of None \<Rightarrow> ''unknown_user'' | Some u \<Rightarrow> u)"
    and input: "user_input = (case json_message of None \<Rightarrow> [] | Some t \<Rightarrow> t)"
    and res: "chat_v4 env d s json_message = (r, d', tr)"
  shows "(is_success r \<longrightarrow>
            authenticated s \<and> length (messages d' name) = length (messages d name) + 1 \<and>
            (\<exists>t. r = Json 200 [(''response'', JStr t)] \<and>
                 (\<forall>u. messages d' u =
                    (if u = name then messages d name @ [new_message env (Some name) user_input t]
                     else messages d u))))
       \<and> (\<not> is_success r \<longrightarrow> is_error r \<and> messages d' = messages d)"
proof (cases "authenticated s \<and> client env")
  case False
  with res show ?thesis by (auto simp: chat_v4_def Let_def split: if_splits)
next
  case True
  with res have ct: "chat_turn get_user_profile_data env d name user_input = (r, d', tr)"
    by (simp add: chat_v4_def name input)
  have pres: "\<forall>p d1. get_user_profile_data env d (Some name) = Inr (p, d1) \<longrightarrow>
      messages d1 = messages d"
    by (blast dest: get_user_profile_data_messages)
  from chat_turn_count[of get_user_profile_data env d name user_input r d' tr, OF pres ct] True
  show ?thesis by auto
qed

text \<open>
  The theorem on a history of three turns: a successful request, and a request whose
  model call returns and whose write raises.
\<close>

theorem chat_appends_one_turn_witness:
  "(\<exists>d' tr. chat_v4 sample_env (sample_db 3) alice (Some ''Hi'') =
      (Json 200 [(''response'', JStr ''Hello'')], d', tr)
      \<and> length (messages d' ''alice'') = length (messages (sample_db 3) ''alice'') + 1
      \<and> messages d' ''alice'' =
          messages (sample_db 3) ''alice'' @ [new_message sample_env (Some ''alice'') ''Hi'' ''Hello''])
   \<and> (\<exists>d' sys conv m. chat_v4 failing_add_env (sample_db 3) alice (Some ''Hi'') =
      (Json 500 [(''error'', JStr ''deadline exceeded'')], d', [Generate sys conv, AddMessage ''alice'' m])
      \<and> messages d' = messages (sample_db 3))"
proof -
  have n: "''alice'' = (case username alice of None \<Rightarrow> ''unknown_user'' | Some u \<Rightarrow> u)"
    and i: "''Hi'' = (case Some ''Hi'' of None \<Rightarrow> [] | Some t \<Rightarrow> t)"
    by (simp_all add: alice_def)
  note r1 = chat_v4_sample[of "Some ''Hi''"]
  note r2 = chat_v4_failing_add
  from chat_appends_one_turn[OF n i r1] chat_appends_one_turn[OF n i r2]
  have "length (messages (put_messages healed_db ''alice''
        (messages (sample_db 3) ''alice'' @ [new_message sample_env (Some ''alice'') ''Hi'' ''Hello''])) ''alice'')
          = length (messages (sample_db 3) ''alice'') + 1"
    "messages healed_db = messages (sample_db 3)"
    by auto
  then show ?thesis unfolding r1 r2 by simp
qed

section \<open>The turn list sent to the model (C3)\<close>

text \<open>
  C3. Every call to the model that \<^verbatim>\<open>POST /chat\<close> makes (v3 and v4) carries as its turn
  list the specification's list over the ten most recent turns of the caller's history;
  with an authenticated session, a client, and reads that do not raise, the call is made;
  and the list the code builds is the specification's.
\<close>

theorem turn_list_sent:
  assumes name: "name = (case username s of None \<Rightarrow> ''unknown_user'' | Some u \<Rightarrow> u)"
    and input: "user_input = (case json_message of None \<Rightarrow> [] | Some t \<Rightarrow> t)"
  shows "(\<forall>sys conv. Generate sys conv \<in> set (snd (snd (chat_v4 env d s json_message))) \<longrightarrow>
            conv = spec_turn_list 10 (messages d name) user_input)
       \<and> (\<forall>sys conv. Generate sys conv \<in> set (snd (snd (chat_v3 env d s json_message))) \<longrightarrow>
            conv = spec_turn_list 10 (messages d name) user_input)
       \<and> (authenticated s \<and> client env \<and> db_raises env UsersGet = None \<and>
          db_raises env UsersSet = None \<and> db_raises env MessagesQuery = None \<longrightarrow>
            (\<exists>sys rest. snd (snd (chat_v4 env d s json_message)) =
               Generate sys (spec_turn_list 10 (messages d name) user_input) # rest))
       \<and> (authenticated s \<and> db_raises env ProfileGet = None \<and>
          db_raises env ProfileSet = None \<and> db_raises env MessagesQuery = None \<longrightarrow>
            (\<exists>sys rest. snd (snd (chat_v3 env d s json_message)) =
               Generate sys (spec_turn_list 10 (messages d name) user_input) # rest))
       \<and> current_conversation (take 10 (order_by_timestamp_desc (messages d name))) user_input =
            spec_turn_list 10 (messages d name) user_input"
proof (intro conjI allI impI)
  have p4: "\<forall>p d1. get_user_profile_data env d (Some name) = Inr (p, d1) \<longrightarrow> messages d1 = messages d"
    by (blast dest: get_user_profile_data_messages)
  have p3: "\<forall>p d1. get_or_create_user_profile env d (Some name) = Inr (p, d1) \<longrightarrow> messages d1 = messages d"
    by (blast dest: get_or_create_user_profile_messages)
  {
    fix sys conv
    assume "Generate sys conv \<in> set (snd (snd (chat_v4 env d s json_message)))"
    then have "Generate sys conv \<in> set (snd (snd (chat_turn get_user_profile_data env d name user_input)))"
      by (simp add: chat_v4_def name input Let_def split: if_splits)
    with p4 show "conv = spec_turn_list 10 (messages d name) user_input"
      by (rule chat_turn_generate)
  next
    fix sys conv
    assume "Generate sys conv \<in> set (snd (snd (chat_v3 env d s json_message)))"
    then have "Generate sys conv \<in> set (snd (snd (chat_turn get_or_create_user_profile env d name user_input)))"
      by (simp add: chat_v3_def name input Let_def split: if_splits)
    with p3 show "conv = spec_turn_list 10 (messages d name) user_input"
      by (rule chat_turn_generate)
  next
    assume a: "authenticated s \<and> client env \<and> db_raises env UsersGet = None \<and>
          db_raises env UsersSet = None \<and> db_raises env MessagesQuery = None"
    then obtain p d1 where l: "get_user_profile_data env d (Some name) = Inr (p, d1)"
      using get_user_profile_data_returns by blast
    with p4 have m1: "messages d1 = messages d" by blast
    from a have c: "chat_v4 env d s json_message = chat_turn get_user_profile_data env d name user_input"
      by (simp add: chat_v4_def name input)
    from a have q: "db_raises env MessagesQuery = None" by simp
    from chat_turn_calls_model[of get_user_profile_data env d name p d1 user_input, OF l m1 q]
    show "\<exists>sys rest. snd (snd (chat_v4 env d s json_message)) =
               Generate sys (spec_turn_list 10 (messages d name) user_input) # rest"
      unfolding c by blast
  next
    assume a: "authenticated s \<and> db_raises env ProfileGet = None \<and>
          db_raises env ProfileSet = None \<and> db_raises env MessagesQuery = None"
    then obtain p d1 where l: "get_or_create_user_profile env d (Some name) = Inr (p, d1)"
      using get_or_create_user_profile_returns by blast
    with p3 have m1: "messages d1 = messages d" by blast
    from a have c: "chat_v3 env d s json_message = chat_turn get_or_create_user_profile env d name user_input"
      by (simp add: chat_v3_def name input)
    from a have q: "db_raises env MessagesQuery = None" by simp
    from chat_turn_calls_model[of get_or_create_user_profile env d name p d1 user_input, OF l m1 q]
    show "\<exists>sys rest. snd (snd (chat_v3 env d s json_message)) =
               Generate sys (spec_turn_list 10 (messages d name) user_input) # rest"
      unfolding c by blast
  next
    show "current_conversation (take 10 (order_by_timestamp_desc (messages d name))) user_input =
            spec_turn_list 10 (messages d name) user_input"
      by (rule current_conversation_spec)
  }
qed

text \<open>The theorem over twelve stored turns: ten are sent, oldest first, then the message.\<close>

theorem turn_list_sent_witness:
  "spec_turn_list 10 (messages (sample_db 12) ''alice'') ''Hi'' =
     concat (replicate 10 [(''user'', ''q''), (''model'', ''a'')]) @ [(''user'', ''Hi'')]
   \<and> (\<exists>sys rest. snd (snd (chat_v4 sample_env (sample_db 12) alice (Some ''Hi''))) =
        Generate sys (concat (replicate 10 [(''user'', ''q''), (''model'', ''a'')]) @ [(''user'', ''Hi'')]) # rest)
   \<and> (\<exists>sys rest. snd (snd (chat_v3 sample_env (sample_db 12) alice (Some ''Hi''))) =
        Generate sys (concat (replicate 10 [(''user'', ''q''), (''model'', ''a'')]) @ [(''user'', ''Hi'')]) # rest)"
proof -
  have n: "''alice'' = (case username alice of None \<Rightarrow> ''unknown_user'' | Some u \<Rightarrow> u)"
    and i: "''Hi'' = (case Some ''Hi'' of None \<Rightarrow> [] | Some t \<Rightarrow> t)"
    and a: "authenticated alice"
    by (simp_all add: alice_def)
  have e: "spec_turn_list 10 (messages (sample_db 12) ''alice'') ''Hi'' =
     concat (replicate 10 [(''user'', ''q''), (''model'', ''a'')]) @ [(''user'', ''Hi'')]"
    by code_simp
  from turn_list_sent[OF n i, of sample_env "sample_db 12"] a show ?thesis
    unfolding e by simp
qed

section \<open>A body without a message (C10)\<close>

text \<open>
  C10. A \<^verbatim>\<open>POST /chat\<close> (v4, v5) whose body has no \<^verbatim>\<open>message\<close> field is answered exactly
  as one whose message is the empty string; when it reaches the model, the turn list ends
  with a user entry of empty text; when it succeeds, the turn appended has the empty user
  text; and the loop that flattens the history adds no user entry for such a turn.
\<close>

theorem missing_message_is_empty:
  assumes name: "name = (case username s of None \<Rightarrow> ''unknown_user'' | Some u \<Rightarrow> u)"
  shows "chat_v4 env d s None = chat_v4 env d s (Some [])
       \<and> chat_v5 env d s None = chat_v5 env d s (Some [])
       \<and> (authenticated s \<and> client env \<and> db_raises env UsersGet = None \<and>
          db_raises env UsersSet = None \<and> db_raises env MessagesQuery = None \<longrightarrow>
            (\<exists>sys rest. snd (snd (chat_v4 env d s None)) =
               Generate sys (concat (map flatten_turn (history_read 10 (messages d name))) @ [(''user'', [])]) # rest
             \<and> snd (snd (chat_v5 env d s None)) = snd (snd (chat_v4 env d s None))))
       \<and> (\<forall>r d' tr. chat_v4 env d s None = (r, d', tr) \<and> is_success r \<longrightarrow>
            (\<exists>m. messages d' name = messages d name @ [m] \<and> user_message m = Some []) \<and>
            chat_v5 env d s None = (r, d', tr))
       \<and> (\<forall>conv m. user_message m = Some [] \<longrightarrow>
            turn_step conv m =
              (case ai_response m of None \<Rightarrow> conv
               | Some t \<Rightarrow> if t \<noteq> [] then conv @ [(''model'', t)] else conv))"
proof (intro conjI allI impI)
  show "chat_v4 env d s None = chat_v4 env d s (Some [])" by (simp add: chat_v4_def)
  show "chat_v5 env d s None = chat_v5 env d s (Some [])" by (simp add: chat_v5_def)
next
  have p4: "\<forall>p d1. get_user_profile_data env d (Some name) = Inr (p, d1) \<longrightarrow> messages d1 = messages d"
    by (blast dest: get_user_profile_data_messages)
  assume a: "authenticated s \<and> client env \<and> db_raises env UsersGet = None \<and>
          db_raises env UsersSet = None \<and> db_raises env MessagesQuery = None"
  then obtain p d1 where l: "get_user_profile_data env d (Some name) = Inr (p, d1)"
    using get_user_profile_data_returns by blast
  with p4 have m1: "messages d1 = messages d" by blast
  from a have c: "chat_v4 env d s None = chat_turn get_user_profile_data env d name []"
    by (simp add: chat_v4_def name)
  from a have c5: "chat_v5 env d s None = chat_v4 env d s None" by (simp add: chat_v5_v4)
  from a have q: "db_raises env MessagesQuery = None" by simp
  from chat_turn_calls_model[of get_user_profile_data env d name p d1 "[]", OF l m1 q]
  show "\<exists>sys rest. snd (snd (chat_v4 env d s None)) =
               Generate sys (concat (map flatten_turn (history_read 10 (messages d name))) @ [(''user'', [])]) # rest
             \<and> snd (snd (chat_v5 env d s None)) = snd (snd (chat_v4 env d s None))"
    unfolding c5 c spec_turn_list_def by blast
next
  fix r d' tr
  assume a: "chat_v4 env d s None = (r, d', tr) \<and> is_success r"
  then have auth: "authenticated s" and cl: "client env"
    by (auto simp: chat_v4_def Let_def split: if_splits)
  with a have ct: "chat_turn get_user_profile_data env d name [] = (r, d', tr)"
    by (simp add: chat_v4_def name)
  have p4: "\<forall>p d1. get_user_profile_data env d (Some name) = Inr (p, d1) \<longrightarrow> messages d1 = messages d"
    by (blast dest: get_user_profile_data_messages)
  from chat_turn_count[of get_user_profile_data env d name "[]" r d' tr, OF p4 ct] a
  obtain t where "\<forall>u. messages d' u =
      (if u = name then messages d name @ [new_message env (Some name) [] t] else messages d u)"
    by blast
  then have "messages d' name = messages d name @ [new_message env (Some name) [] t]" by simp
  moreover have "user_message (new_message env (Some name) [] t) = Some []"
    by (simp add: new_message_def)
  ultimately show "\<exists>m. messages d' name = messages d name @ [m] \<and> user_message m = Some []"
    by blast
  from a cl show "chat_v5 env d s None = (r, d', tr)" by (simp add: chat_v5_v4)
next
  fix conv :: "entry list" and m :: message
  assume "user_message m = Some []"
  then show "turn_step conv m =
              (case ai_response m of None \<Rightarrow> conv
               | Some t \<Rightarrow> if t \<noteq> [] then conv @ [(''model'', t)] else conv)"
    by (simp add: turn_step_def)
qed

text \<open>The theorem on the sample store: the request succeeds and stores an empty user text.\<close>

theorem missing_message_is_empty_witness:
  "chat_v4 sample_env (sample_db 3) alice None = chat_v4 sample_env (sample_db 3) alice (Some [])
   \<and> (\<exists>d' sys hist m. chat_v4 sample_env (sample_db 3) alice None =
         (Json 200 [(''response'', JStr ''Hello'')], d',
          [Generate sys (hist @ [(''user'', [])]), AddMessage ''alice'' m])
       \<and> messages d' ''alice'' = messages (sample_db 3) ''alice'' @ [m]
       \<and> user_message m = Some [] \<and> turn_step [] m = [(''model'', ''Hello'')])"
proof -
  have n: "''alice'' = (case username alice of None \<Rightarrow> ''unknown_user'' | Some u \<Rightarrow> u)"
    by (simp add: alice_def)
  note r = chat_v4_sample[of None]
  from missing_message_is_empty[OF n, of sample_env "sample_db 3"]
  have e: "chat_v4 sample_env (sample_db 3) alice None = chat_v4 sample_env (sample_db 3) alice (Some [])"
    and t: "turn_step [] (new_message sample_env (Some ''alice'') [] ''Hello'') =
             (case ai_response (new_message sample_env (Some ''alice'') [] ''Hello'') of
                None \<Rightarrow> [] | Some t \<Rightarrow> if t \<noteq> [] then [] @ [(''model'', t)] else [])"
    by (simp_all add: new_message_def)
  from t have t': "turn_step [] (new_message sample_env (Some ''alice'') [] ''Hello'') = [(''model'', ''Hello'')]"
    by (simp add: new_message_def)
  show ?thesis
    apply (rule conjI[OF e])
    unfolding r spec_turn_list_def
    using t' by (auto simp: new_message_def)
qed

section \<open>The system instruction (C4)\<close>

lemma chat_turn_generate_sys:
  assumes "load env d (Some name) = Inr (p, d1)"
    and "Generate sys conv \<in> set (snd (snd (chat_turn load env d name user_input)))"
  shows "sys = system_instruction p (Some name)"
  using assms
  by (auto simp: chat_turn_def Let_def split: sum.splits)

text \<open>
  C4. For every profile document the system instruction the code builds is the
  specification's: an absent persona or goal is replaced by its default, an empty one is
  left out of the join, as are empty special instructions; an absent display name is
  replaced by the username. Every call \<^verbatim>\<open>POST /chat\<close> makes to the model (v3, v4) carries
  this string for the profile that was loaded.
\<close>

theorem system_instruction_spec:
  assumes name: "name = (case username s of None \<Rightarrow> ''unknown_user'' | Some u \<Rightarrow> u)"
  shows "system_instruction p any_name = spec_system_instruction p any_name
       \<and> (\<forall>sys conv d1. get_user_profile_data env d (Some name) = Inr (p, d1) \<and>
             Generate sys conv \<in> set (snd (snd (chat_v4 env d s json_message))) \<longrightarrow>
             sys = spec_system_instruction p (Some name))
       \<and> (\<forall>sys conv d1. get_or_create_user_profile env d (Some name) = Inr (p, d1) \<and>
             Generate sys conv \<in> set (snd (snd (chat_v3 env d s json_message))) \<longrightarrow>
             sys = spec_system_instruction p (Some name))"
proof (intro conjI allI impI)
  show e: "system_instruction p n = spec_system_instruction p n" for n
    by (simp add: system_instruction_def spec_system_instruction_def Let_def split: option.splits)
  {
    fix sys conv d1
    assume a: "get_user_profile_data env d (Some name) = Inr (p, d1) \<and>
             Generate sys conv \<in> set (snd (snd (chat_v4 env d s json_message)))"
    then have "Generate sys conv \<in> set (snd (snd (chat_turn get_user_profile_data env d name
                 (case json_message of None \<Rightarrow> [] | Some t \<Rightarrow> t))))"
      by (simp add: chat_v4_def name Let_def split: if_splits)
    with a have "sys = system_instruction p (Some name)"
      using chat_turn_generate_sys[of get_user_profile_data env d name p d1 sys conv] by blast
    then show "sys = spec_system_instruction p (Some name)" by (simp add: e)
  next
    fix sys conv d1
    assume a: "get_or_create_user_profile env d (Some name) = Inr (p, d1) \<and>
             Generate sys conv \<in> set (snd (snd (chat_v3 env d s json_message)))"
    then have "Generate sys conv \<in> set (snd (snd (chat_turn get_or_create_user_profile env d name
                 (case json_message of None \<Rightarrow> [] | Some t \<Rightarrow> t))))"
      by (simp add: chat_v3_def name Let_def split: if_splits)
    with a have "sys = system_instruction p (Some name)"
      using chat_turn_generate_sys[of get_or_create_user_profile env d name p d1 sys conv] by blast
    then show "sys = spec_system_instruction p (Some name)" by (simp add: e)
  }
qed

text \<open>
  The theorem on the default profile of \<open>alice\<close>, on a profile with an empty persona and
  no goal, and on a request of the sample store.
\<close>

theorem system_instruction_spec_witness:
  "system_instruction (default_profile (Some ''alice'')) (Some ''alice'') =
     ''You are a helpful and friendly AI assistant. Your name is Alfred. Answer questions and engage in natural conversation. The user you are interacting with is named alice.''
   \<and> system_instruction blank_profile None =
     ''Your name is Alfred. Answer questions and engage in natural conversation. Be brief. The user you are interacting with is named Al.''
   \<and> (\<exists>conv rest. snd (snd (chat_v4 sample_env (sample_db 3) alice (Some ''Hi''))) =
        Generate ''You are a helpful and friendly AI assistant. Your name is Alfred. Answer questions and engage in natural conversation. The user you are interacting with is named alice.'' conv # rest)"
proof -
  have n: "''alice'' = (case username alice of None \<Rightarrow> ''unknown_user'' | Some u \<Rightarrow> u)"
    by (simp add: alice_def)
  have d: "spec_system_instruction (default_profile (Some ''alice'')) (Some ''alice'') =
     ''You are a helpful and friendly AI assistant. Your name is Alfred. Answer questions and engage in natural conversation. The user you are interacting with is named alice.''"
    by code_simp
  have b: "spec_system_instruction blank_profile None =
     ''Your name is Alfred. Answer questions and engage in natural conversation. Be brief. The user you are interacting with is named Al.''"
    by code_simp
  from system_instruction_spec[OF n, of "default_profile (Some ''alice'')" "Some ''alice''"]
  have 1: "system_instruction (default_profile (Some ''alice'')) (Some ''alice'') =
      spec_system_instruction (default_profile (Some ''alice'')) (Some ''alice'')"
    by blast
  from system_instruction_spec[OF n, of blank_profile None]
  have 2: "system_instruction blank_profile None = spec_system_instruction blank_profile None"
    by blast
  show ?thesis
    unfolding chat_v4_sample 1 2 d b by simp
qed

section \<open>The voice turn (C9)\<close>

lemma failing_tts_env_simps [simp]:
  "client failing_tts_env" "db_raises failing_tts_env c = None"
  "generate_content failing_tts_env sys conv = Inr ''Hello''"
  "server_time failing_tts_env = 100" "auto_id failing_tts_env = 1000"
  "recognize failing_tts_env a = Inr [[''hi'']]"
  "synthesize_speech failing_tts_env t = Inl ''quota exceeded''"
  by (simp_all add: failing_tts_env_def sample_env_def)

lemma voice_unauthorized:
  "\<not> authenticated s \<Longrightarrow>
   transcribe_and_chat env d s audio_data = (Json 401 [(''error'', JStr ''Unauthorized'')], d, [])"
  by (simp add: transcribe_and_chat_def)

lemma voice_no_file:
  "authenticated s \<Longrightarrow>
   transcribe_and_chat env d s None = (Json 400 [(''error'', JStr ''No audio file found'')], d, [])"
  by (simp add: transcribe_and_chat_def)

lemma voice_stt_raises:
  "authenticated s \<Longrightarrow> recognize env a = Inl e \<Longrightarrow>
   transcribe_and_chat env d s (Some a) =
     (Json 500 [(''error'', JStr (''Speech-to-Text failed: '' @ e))], d, [Recognize a])"
  by (simp add: transcribe_and_chat_def)

lemma voice_stt_empty:
  "authenticated s \<Longrightarrow> recognize env a = Inr [] \<or> recognize env a = Inr ([] # rest) \<Longrightarrow>
   transcribe_and_chat env d s (Some a) =
     (Json 400 [(''error'', JStr ''Could not understand audio'')], d, [Recognize a])"
  by (auto simp: transcribe_and_chat_def)

lemma voice_profile_raises:
  "authenticated s \<Longrightarrow> recognize env a = Inr ((transcript # alts) # rest) \<Longrightarrow>
   get_user_profile_data env d (username s) = Inl e \<Longrightarrow>
   transcribe_and_chat env d s (Some a) =
     (Json 500 [(''error'', JStr (''AI chat failed: '' @ e))], d, [Recognize a])"
  by (simp add: transcribe_and_chat_def)

lemma voice_no_client:
  "authenticated s \<Longrightarrow> recognize env a = Inr ((transcript # alts) # rest) \<Longrightarrow>
   get_user_profile_data env d (username s) = Inr (p, d1) \<Longrightarrow> \<not> client env \<Longrightarrow>
   transcribe_and_chat env d s (Some a) =
     (Json 500 [(''error'', JStr (''AI chat failed: '' @
         quoted ''NoneType'' @ '' object has no attribute '' @ quoted ''models''))], d1, [Recognize a])"
  by (simp add: transcribe_and_chat_def Let_def)

lemma voice_model_raises:
  "authenticated s \<Longrightarrow> recognize env a = Inr ((transcript # alts) # rest) \<Longrightarrow>
   get_user_profile_data env d (username s) = Inr (p, d1) \<Longrightarrow> client env \<Longrightarrow>
   generate_content env (system_instruction p (username s)) [(''user'', transcript)] = Inl e \<Longrightarrow>
   transcribe_and_chat env d s (Some a) =
     (Json 500 [(''error'', JStr (''AI chat failed: '' @ e))], d1,
      [Recognize a, Generate (system_instruction p (username s)) [(''user'', transcript)]])"
  by (simp add: transcribe_and_chat_def Let_def)

lemma voice_add_raises:
  "authenticated s \<Longrightarrow> recognize env a = Inr ((transcript # alts) # rest) \<Longrightarrow>
   get_user_profile_data env d (username s) = Inr (p, d1) \<Longrightarrow> client env \<Longrightarrow>
   generate_content env (system_instruction p (username s)) [(''user'', transcript)] = Inr t \<Longrightarrow>
   messages_add env d1 (username s) (new_message env (username s) transcript t) = Inl e \<Longrightarrow>
   transcribe_and_chat env d s (Some a) =
     (Json 500 [(''error'', JStr (''AI chat failed: '' @ e))], d1,
      [Recognize a, Generate (system_instruction p (username s)) [(''user'', transcript)],
       AddMessage (doc_key env (username s)) (new_message env (username s) transcript t)])"
  by (simp add: transcribe_and_chat_def Let_def)

lemma voice_tts_raises:
  "authenticated s \<Longrightarrow> recognize env a = Inr ((transcript # alts) # rest) \<Longrightarrow>
   get_user_profile_data env d (username s) = Inr (p, d1) \<Longrightarrow> client env \<Longrightarrow>
   generate_content env (system_instruction p (username s)) [(''user'', transcript)] = Inr t \<Longrightarrow>
   messages_add env d1 (username s) (new_message env (username s) transcript t) = Inr d2 \<Longrightarrow>
   synthesize_speech env t = Inl e \<Longrightarrow>
   transcribe_and_chat env d s (Some a) =
     (Json 500 [(''error'', JStr (''Text-to-Speech failed: '' @ e))], d2,
      [Recognize a, Generate (system_instruction p (username s)) [(''user'', transcript)],
       AddMessage (doc_key env (username s)) (new_message env (username s) transcript t),
       Synthesize t])"
  by (simp add: transcribe_and_chat_def Let_def)

lemma voice_complete:
  "authenticated s \<Longrightarrow> recognize env a = Inr ((transcript # alts) # rest) \<Longrightarrow>
   get_user_profile_data env d (username s) = Inr (p, d1) \<Longrightarrow> client env \<Longrightarrow>
   generate_content env (system_instruction p (username s)) [(''user'', transcript)] = Inr t \<Longrightarrow>
   messages_add env d1 (username s) (new_message env (username s) transcript t) = Inr d2 \<Longrightarrow>
   synthesize_speech env t = Inr audio \<Longrightarrow>
   transcribe_and_chat env d s (Some a) =
     (Json 200 [(''user_transcript'', JStr transcript), (''ai_response_text'', JStr t),
                (''ai_response_audio'', JStr (b64encode env audio))], d2,
      [Recognize a, Generate (system_instruction p (username s)) [(''user'', transcript)],
       AddMessage (doc_key env (username s)) (new_message env (username s) transcript t),
       Synthesize t])"
  by (simp add: transcribe_and_chat_def Let_def)

text \<open>
  Read back from the result. Whatever \<^verbatim>\<open>POST /transcribe_and_chat\<close> returns: the calls
  it made are an initial part of the sequence speech-to-text, model (with the transcript
  as its only turn), \<^verbatim>\<open>messages.add\<close>, text-to-speech; a success means every stage
  returned; every other answer is an error body alone; and a run that never reached the
  write leaves every history unchanged.
\<close>

lemma voice_turn_read_back:
  assumes res: "transcribe_and_chat env d s audio_data = (r, d', tr)"
  shows "(\<exists>a sys transcript key m t.
            tr = take (length tr)
                   [Recognize a, Generate sys [(''user'', transcript)], AddMessage key m, Synthesize t])
       \<and> (is_success r \<longrightarrow>
            (\<exists>a alts rest transcript p d1 t audio.
               authenticated s \<and> audio_data = Some a \<and>
               recognize env a = Inr ((transcript # alts) # rest) \<and>
               get_user_profile_data env d (username s) = Inr (p, d1) \<and>
               generate_content env (system_instruction p (username s)) [(''user'', transcript)] = Inr t \<and>
               messages_add env d1 (username s) (new_message env (username s) transcript t) = Inr d' \<and>
               synthesize_speech env t = Inr audio \<and>
               r = Json 200 [(''user_transcript'', JStr transcript), (''ai_response_text'', JStr t),
                             (''ai_response_audio'', JStr (b64encode env audio))] \<and>
               tr = [Recognize a, Generate (system_instruction p (username s)) [(''user'', transcript)],
                     AddMessage (doc_key env (username s)) (new_message env (username s) transcript t),
                     Synthesize t]))
       \<and> (\<not> is_success r \<longrightarrow>
            (\<exists>code msg. r = Json code [(''error'', JStr msg)] \<and> 400 \<le> code \<and>
               (case tr of
                  [] \<Rightarrow> msg = ''Unauthorized'' \<or> msg = ''No audio file found''
                | [_] \<Rightarrow> msg = ''Could not understand audio'' \<or>
                         (\<exists>e. msg = ''Speech-to-Text failed: '' @ e) \<or>
                         (\<exists>e. msg = ''AI chat failed: '' @ e)
                | [_, _] \<Rightarrow> (\<exists>e. msg = ''AI chat failed: '' @ e)
                | [_, _, _] \<Rightarrow> (\<exists>e. msg = ''AI chat failed: '' @ e)
                | _ \<Rightarrow> (\<exists>e. msg = ''Text-to-Speech failed: '' @ e))))
       \<and> ((\<forall>key m. AddMessage key m \<notin> set tr) \<longrightarrow> messages d' = messages d)"
proof (cases "authenticated s")
  case False
  with res show ?thesis by (auto simp: voice_unauthorized)
next
  case auth: True
  show ?thesis
  proof (cases audio_data)
    case None
    with res auth show ?thesis by (auto simp: voice_no_file)
  next
    case (Some a)
    note res' = res[unfolded Some]
    show ?thesis
    proof (cases "recognize env a")
      case (Inl e)
      from res' show ?thesis
        unfolding voice_stt_raises[OF auth Inl] by auto
    next
      case (Inr results)
      show ?thesis
      proof (cases "\<exists>transcript alts rest. results = (transcript # alts) # rest")
        case False
        then have "results = [] \<or> (\<exists>rest. results = [] # rest)"
          by (cases results; cases "hd results") auto
        then obtain rest where em: "recognize env a = Inr [] \<or> recognize env a = Inr ([] # rest)"
          using Inr by auto
        from res' show ?thesis
          unfolding voice_stt_empty[OF auth em] by auto
      next
        case True
        then obtain transcript alts rest where stt: "recognize env a = Inr ((transcript # alts) # rest)"
          using Inr by auto
        show ?thesis
        proof (cases "get_user_profile_data env d (username s)")
          case (Inl e)
          from res' show ?thesis
            unfolding voice_profile_raises[OF auth stt Inl] by auto
        next
          case (Inr x)
          obtain p d1 where x: "x = (p, d1)" by (cases x)
          note load = Inr[unfolded x]
          note m1 = get_user_profile_data_messages[OF load]
          show ?thesis
          proof (cases "client env")
            case False
            from res' m1 show ?thesis
              unfolding voice_no_client[OF auth stt load False] by auto
          next
            case cl: True
            show ?thesis
            proof (cases "generate_content env (system_instruction p (username s)) [(''user'', transcript)]")
              case (Inl e)
              from res' m1 show ?thesis
                unfolding voice_model_raises[OF auth stt load cl Inl] by auto
            next
              case (Inr t)
              note gen = this
              show ?thesis
              proof (cases "messages_add env d1 (username s) (new_message env (username s) transcript t)")
                case (Inl e)
                from res' m1 show ?thesis
                  unfolding voice_add_raises[OF auth stt load cl gen Inl] by auto
              next
                case (Inr d2)
                note add = this
                show ?thesis
                proof (cases "synthesize_speech env t")
                  case (Inl e)
                  from res' show ?thesis
                    unfolding voice_tts_raises[OF auth stt load cl gen add Inl] by auto
                next
                  case (Inr audio)
                  from res' have r: "r = Json 200 [(''user_transcript'', JStr transcript), (''ai_response_text'', JStr t),
                                (''ai_response_audio'', JStr (b64encode env audio))]"
                    and d': "d' = d2"
                    and tr: "tr = [Recognize a, Generate (system_instruction p (username s)) [(''user'', transcript)],
                       AddMessage (doc_key env (username s)) (new_message env (username s) transcript t),
                       Synthesize t]"
                    unfolding voice_complete[OF auth stt load cl gen add Inr] by auto
                  show ?thesis
                    unfolding r d' tr using auth Some stt load gen add Inr by auto
                qed
              qed
            qed
          qed
        qed
      qed
    qed
  qed
qed

text \<open>
  C9, amended. \<^verbatim>\<open>POST /transcribe_and_chat\<close> of an authenticated session runs
  speech-to-text, the profile read and the model call (the transcript its only turn),
  \<^verbatim>\<open>messages.add\<close> and text-to-speech in this order, and the first stage that fails ends
  the request: the calls made stop with the failing one, the store is as the stages
  before it left it, and the answer is the error of the \<^verbatim>\<open>try\<close> block the stage stands
  in and nothing else. A speech-to-text that raises gives \<open>Speech-to-Text failed\<close>, one
  without a transcript \<open>Could not understand audio\<close>; a profile read, a model call
  (also a missing client) or a write that raises gives \<open>AI chat failed\<close>, the three
  sharing one block; a text-to-speech that raises gives \<open>Text-to-Speech failed\<close>, the
  turn being stored by then. When every stage returns, the answer holds the transcript,
  the model's text and the encoded audio together, and no other run does: whatever is
  returned, a success means every stage returned, and every other answer is an error
  body alone.
\<close>

theorem voice_turn_stages:
  "(\<not> authenticated s \<longrightarrow>
      transcribe_and_chat env d s audio_data = (Json 401 [(''error'', JStr ''Unauthorized'')], d, []))
   \<and> (authenticated s \<longrightarrow>
        transcribe_and_chat env d s None = (Json 400 [(''error'', JStr ''No audio file found'')], d, [])
      \<and> (recognize env a = Inl e \<longrightarrow>
            transcribe_and_chat env d s (Some a) =
              (Json 500 [(''error'', JStr (''Speech-to-Text failed: '' @ e))], d, [Recognize a]))
      \<and> (recognize env a = Inr [] \<or> recognize env a = Inr ([] # rest) \<longrightarrow>
            transcribe_and_chat env d s (Some a) =
              (Json 400 [(''error'', JStr ''Could not understand audio'')], d, [Recognize a]))
      \<and> (recognize env a = Inr ((transcript # alts) # rest) \<longrightarrow>
            (get_user_profile_data env d (username s) = Inl e \<longrightarrow>
               transcribe_and_chat env d s (Some a) =
                 (Json 500 [(''error'', JStr (''AI chat failed: '' @ e))], d, [Recognize a]))
          \<and> (get_user_profile_data env d (username s) = Inr (p, d1) \<longrightarrow>
               (\<not> client env \<longrightarrow>
                  transcribe_and_chat env d s (Some a) =
                    (Json 500 [(''error'', JStr (''AI chat failed: '' @
                        quoted ''NoneType'' @ '' object has no attribute '' @ quoted ''models''))],
                     d1, [Recognize a]))
             \<and> (client env \<longrightarrow>
                  (generate_content env (system_instruction p (username s)) [(''user'', transcript)] = Inl e \<longrightarrow>
                     transcribe_and_chat env d s (Some a) =
                       (Json 500 [(''error'', JStr (''AI chat failed: '' @ e))], d1,
                        [Recognize a, Generate (system_instruction p (username s)) [(''user'', transcript)]]))
                \<and> (generate_content env (system_instruction p (username s)) [(''user'', transcript)] = Inr t \<longrightarrow>
                     (messages_add env d1 (username s) (new_message env (username s) transcript t) = Inl e \<longrightarrow>
                        transcribe_and_chat env d s (Some a) =
                          (Json 500 [(''error'', JStr (''AI chat failed: '' @ e))], d1,
                           [Recognize a, Generate (system_instruction p (username s)) [(''user'', transcript)],
                            AddMessage (doc_key env (username s)) (new_message env (username s) transcript t)]))
                   \<and> (messages_add env d1 (username s) (new_message env (username s) transcript t) = Inr d2 \<longrightarrow>
                        (synthesize_speech env t = Inl e \<longrightarrow>
                           transcribe_and_chat env d s (Some a) =
                             (Json 500 [(''error'', JStr (''Text-to-Speech failed: '' @ e))], d2,
                              [Recognize a, Generate (system_instruction p (username s)) [(''user'', transcript)],
                               AddMessage (doc_key env (username s)) (new_message env (username s) transcript t),
                               Synthesize t]))
                      \<and> (synthesize_speech env t = Inr audio \<longrightarrow>
                           transcribe_and_chat env d s (Some a) =
                             (Json 200 [(''user_transcript'', JStr transcript), (''ai_response_text'', JStr t),
                                        (''ai_response_audio'', JStr (b64encode env audio))], d2,
                              [Recognize a, Generate (system_instruction p (username s)) [(''user'', transcript)],
                               AddMessage (doc_key env (username s)) (new_message env (username s) transcript t),
                               Synthesize t]))))))))
   \<and> (\<forall>r d' tr. transcribe_and_chat env d s audio_data = (r, d', tr) \<longrightarrow>
         (\<exists>a sys transcript key m t.
            tr = take (length tr)
                   [Recognize a, Generate sys [(''user'', transcript)], AddMessage key m, Synthesize t])
       \<and> (is_success r \<longrightarrow>
            (\<exists>a alts rest transcript p d1 t audio.
               authenticated s \<and> audio_data = Some a \<and>
               recognize env a = Inr ((transcript # alts) # rest) \<and>
               get_user_profile_data env d (username s) = Inr (p, d1) \<and>
               generate_content env (system_instruction p (username s)) [(''user'', transcript)] = Inr t \<and>
               messages_add env d1 (username s) (new_message env (username s) transcript t) = Inr d' \<and>
               synthesize_speech env t = Inr audio \<and>
               r = Json 200 [(''user_transcript'', JStr transcript), (''ai_response_text'', JStr t),
                             (''ai_response_audio'', JStr (b64encode env audio))] \<and>
               tr = [Recognize a, Generate (system_instruction p (username s)) [(''user'', transcript)],
                     AddMessage (doc_key env (username s)) (new_message env (username s) transcript t),
                     Synthesize t]))
       \<and> (\<not> is_success r \<longrightarrow>
            (\<exists>code msg. r = Json code [(''error'', JStr msg)] \<and> 400 \<le> code \<and>
               (case tr of
                  [] \<Rightarrow> msg = ''Unauthorized'' \<or> msg = ''No audio file found''
                | [_] \<Rightarrow> msg = ''Could not understand audio'' \<or>
                         (\<exists>e. msg = ''Speech-to-Text failed: '' @ e) \<or>
                         (\<exists>e. msg = ''AI chat failed: '' @ e)
                | [_, _] \<Rightarrow> (\<exists>e. msg = ''AI chat failed: '' @ e)
                | [_, _, _] \<Rightarrow> (\<exists>e. msg = ''AI chat failed: '' @ e)
                | _ \<Rightarrow> (\<exists>e. msg = ''Text-to-Speech failed: '' @ e))))
       \<and> ((\<forall>key m. AddMessage key m \<notin> set tr) \<longrightarrow> messages d' = messages d))"
proof -
  have 1: "\<not> authenticated s \<longrightarrow>
      transcribe_and_chat env d s audio_data = (Json 401 [(''error'', JStr ''Unauthorized'')], d, [])"
    by (simp add: voice_unauthorized)
  have 2: "authenticated s \<longrightarrow>
        transcribe_and_chat env d s None = (Json 400 [(''error'', JStr ''No audio file found'')], d, [])
      \<and> (recognize env a = Inl e \<longrightarrow>
            transcribe_and_chat env d s (Some a) =
              (Json 500 [(''error'', JStr (''Speech-to-Text failed: '' @ e))], d, [Recognize a]))
      \<and> (recognize env a = Inr [] \<or> recognize env a = Inr ([] # rest) \<longrightarrow>
            transcribe_and_chat env d s (Some a) =
              (Json 400 [(''error'', JStr ''Could not understand audio'')], d, [Recognize a]))
      \<and> (recognize env a = Inr ((transcript # alts) # rest) \<longrightarrow>
            (get_user_profile_data env d (username s) = Inl e \<longrightarrow>
               transcribe_and_chat env d s (Some a) =
                 (Json 500 [(''error'', JStr (''AI chat failed: '' @ e))], d, [Recognize a]))
          \<and> (get_user_profile_data env d (username s) = Inr (p, d1) \<longrightarrow>
               (\<not> client env \<longrightarrow>
                  transcribe_and_chat env d s (Some a) =
                    (Json 500 [(''error'', JStr (''AI chat failed: '' @
                        quoted ''NoneType'' @ '' object has no attribute '' @ quoted ''models''))],
                     d1, [Recognize a]))
             \<and> (client env \<longrightarrow>
                  (generate_content env (system_instruction p (username s)) [(''user'', transcript)] = Inl e \<longrightarrow>
                     transcribe_and_chat env d s (Some a) =
                       (Json 500 [(''error'', JStr (''AI chat failed: '' @ e))], d1,
                        [Recognize a, Generate (system_instruction p (username s)) [(''user'', transcript)]]))
                \<and> (generate_content env (system_instruction p (username s)) [(''user'', transcript)] = Inr t \<longrightarrow>
                     (messages_add env d1 (username s) (new_message env (username s) transcript t) = Inl e \<longrightarrow>
                        transcribe_and_chat env d s (Some a) =
                          (Json 500 [(''error'', JStr (''AI chat failed: '' @ e))], d1,
                           [Recognize a, Generate (system_instruction p (username s)) [(''user'', transcript)],
                            AddMessage (doc_key env (username s)) (new_message env (username s) transcript t)]))
                   \<and> (messages_add env d1 (username s) (new_message env (username s) transcript t) = Inr d2 \<longrightarrow>
                        (synthesize_speech env t = Inl e \<longrightarrow>
                           transcribe_and_chat env d s (Some a) =
                             (Json 500 [(''error'', JStr (''Text-to-Speech failed: '' @ e))], d2,
                              [Recognize a, Generate (system_instruction p (username s)) [(''user'', transcript)],
                               AddMessage (doc_key env (username s)) (new_message env (username s) transcript t),
                               Synthesize t]))
                      \<and> (synthesize_speech env t = Inr audio \<longrightarrow>
                           transcribe_and_chat env d s (Some a) =
                             (Json 200 [(''user_transcript'', JStr transcript), (''ai_response_text'', JStr t),
                                        (''ai_response_audio'', JStr (b64encode env audio))], d2,
                              [Recognize a, Generate (system_instruction p (username s)) [(''user'', transcript)],
                               AddMessage (doc_key env (username s)) (new_message env (username s) transcript t),
                               Synthesize t])))))))"
  proof (intro impI conjI)
    assume auth: "authenticated s"
    show "transcribe_and_chat env d s None = (Json 400 [(''error'', JStr ''No audio file found'')], d, [])"
      by (rule voice_no_file[OF auth])
    show "transcribe_and_chat env d s (Some a) =
              (Json 500 [(''error'', JStr (''Speech-to-Text failed: '' @ e))], d, [Recognize a])"
      if "recognize env a = Inl e"
      by (rule voice_stt_raises[OF auth that])
    show "transcribe_and_chat env d s (Some a) =
              (Json 400 [(''error'', JStr ''Could not understand audio'')], d, [Recognize a])"
      if "recognize env a = Inr [] \<or> recognize env a = Inr ([] # rest)"
      by (rule voice_stt_empty[OF auth that])
    assume stt: "recognize env a = Inr ((transcript # alts) # rest)"
    show "transcribe_and_chat env d s (Some a) =
                 (Json 500 [(''error'', JStr (''AI chat failed: '' @ e))], d, [Recognize a])"
      if "get_user_profile_data env d (username s) = Inl e"
      by (rule voice_profile_raises[OF auth stt that])
    assume load: "get_user_profile_data env d (username s) = Inr (p, d1)"
    show "transcribe_and_chat env d s (Some a) =
                    (Json 500 [(''error'', JStr (''AI chat failed: '' @
                        quoted ''NoneType'' @ '' object has no attribute '' @ quoted ''models''))],
                     d1, [Recognize a])"
      if "\<not> client env"
      by (rule voice_no_client[OF auth stt load that])
    assume cl: "client env"
    show "transcribe_and_chat env d s (Some a) =
                       (Json 500 [(''error'', JStr (''AI chat failed: '' @ e))], d1,
                        [Recognize a, Generate (system_instruction p (username s)) [(''user'', transcript)]])"
      if "generate_content env (system_instruction p (username s)) [(''user'', transcript)] = Inl e"
      by (rule voice_model_raises[OF auth stt load cl that])
    assume gen: "generate_content env (system_instruction p (username s)) [(''user'', transcript)] = Inr t"
    show "transcribe_and_chat env d s (Some a) =
                          (Json 500 [(''error'', JStr (''AI chat failed: '' @ e))], d1,
                           [Recognize a, Generate (system_instruction p (username s)) [(''user'', transcript)],
                            AddMessage (doc_key env (username s)) (new_message env (username s) transcript t)])"
      if "messages_add env d1 (username s) (new_message env (username s) transcript t) = Inl e"
      by (rule voice_add_raises[OF auth stt load cl gen that])
    assume add: "messages_add env d1 (username s) (new_message env (username s) transcript t) = Inr d2"
    show "transcribe_and_chat env d s (Some a) =
                             (Json 500 [(''error'', JStr (''Text-to-Speech failed: '' @ e))], d2,
                              [Recognize a, Generate (system_instruction p (username s)) [(''user'', transcript)],
                               AddMessage (doc_key env (username s)) (new_message env (username s) transcript t),
                               Synthesize t])"
      if "synthesize_speech env t = Inl e"
      by (rule voice_tts_raises[OF auth stt load cl gen add that])
    show "transcribe_and_chat env d s (Some a) =
                             (Json 200 [(''user_transcript'', JStr transcript), (''ai_response_text'', JStr t),
                                        (''ai_response_audio'', JStr (b64encode env audio))], d2,
                              [Recognize a, Generate (system_instruction p (username s)) [(''user'', transcript)],
                               AddMessage (doc_key env (username s)) (new_message env (username s) transcript t),
                               Synthesize t])"
      if "synthesize_speech env t = Inr audio"
      by (rule voice_complete[OF auth stt load cl gen add that])
  qed
  have 3: "\<forall>r d' tr. transcribe_and_chat env d s audio_data = (r, d', tr) \<longrightarrow>
         (\<exists>a sys transcript key m t.
            tr = take (length tr)
                   [Recognize a, Generate sys [(''user'', transcript)], AddMessage key m, Synthesize t])
       \<and> (is_success r \<longrightarrow>
            (\<exists>a alts rest transcript p d1 t audio.
               authenticated s \<and> audio_data = Some a \<and>
               recognize env a = Inr ((transcript # alts) # rest) \<and>
               get_user_profile_data env d (username s) = Inr (p, d1) \<and>
               generate_content env (system_instruction p (username s)) [(''user'', transcript)] = Inr t \<and>
               messages_add env d1 (username s) (new_message env (username s) transcript t) = Inr d' \<and>
               synthesize_speech env t = Inr audio \<and>
               r = Json 200 [(''user_transcript'', JStr transcript), (''ai_response_text'', JStr t),
                             (''ai_response_audio'', JStr (b64encode env audio))] \<and>
               tr = [Recognize a, Generate (system_instruction p (username s)) [(''user'', transcript)],
                     AddMessage (doc_key env (username s)) (new_message env (username s) transcript t),
                     Synthesize t]))
       \<and> (\<not> is_success r \<longrightarrow>
            (\<exists>code msg. r = Json code [(''error'', JStr msg)] \<and> 400 \<le> code \<and>
               (case tr of
                  [] \<Rightarrow> msg = ''Unauthorized'' \<or> msg = ''No audio file found''
                | [_] \<Rightarrow> msg = ''Could not understand audio'' \<or>
                         (\<exists>e. msg = ''Speech-to-Text failed: '' @ e) \<or>
                         (\<exists>e. msg = ''AI chat failed: '' @ e)
                | [_, _] \<Rightarrow> (\<exists>e. msg = ''AI chat failed: '' @ e)
                | [_, _, _] \<Rightarrow> (\<exists>e. msg = ''AI chat failed: '' @ e)
                | _ \<Rightarrow> (\<exists>e. msg = ''Text-to-Speech failed: '' @ e))))
       \<and> ((\<forall>key m. AddMessage key m \<notin> set tr) \<longrightarrow> messages d' = messages d)"
    by (intro allI impI) (rule voice_turn_read_back)
  show ?thesis by (rule conjI[OF 1 conjI[OF 2 3]])
qed

lemma sample_voice_add:
  "messages_add sample_env healed_db (Some ''alice'') (new_message sample_env (Some ''alice'') t ''Hello'') =
      Inr (put_messages healed_db ''alice''
             (messages (sample_db 3) ''alice'' @ [new_message sample_env (Some ''alice'') t ''Hello'']))"
  "messages_add failing_tts_env healed_db (Some ''alice'') (new_message failing_tts_env (Some ''alice'') t ''Hello'') =
      Inr (put_messages healed_db ''alice''
             (messages (sample_db 3) ''alice'' @ [new_message failing_tts_env (Some ''alice'') t ''Hello'']))"
  by (simp_all add: messages_add_def doc_key_def healed_db_messages)
     (simp_all add: sample_db_def sample_turn_def upt_rec new_message_def)

lemma sample_voice_load:
  "get_user_profile_data failing_tts_env (sample_db 3) (Some ''alice'') =
      Inr (default_profile (Some ''alice''), healed_db)"
  by (simp add: get_user_profile_data_def users_get_def users_set_merge_def healed_db_def
      sample_db_def doc_key_def merge_doc_def over_def default_profile_def resolve_def empty_doc_def)

lemma failing_model_env_simps [simp]:
  "client failing_model_env" "db_raises failing_model_env c = None"
  "generate_content failing_model_env sys conv = Inl ''deadline exceeded''"
  "recognize failing_model_env a = Inr [[''hi'']]"
  by (simp_all add: failing_model_env_def sample_env_def)

lemma failing_model_load:
  "get_user_profile_data failing_model_env (sample_db 3) (Some ''alice'') =
      Inr (default_profile (Some ''alice''), healed_db)"
  by (simp add: get_user_profile_data_def users_get_def users_set_merge_def healed_db_def
      sample_db_def doc_key_def merge_doc_def over_def default_profile_def resolve_def empty_doc_def)
     (simp add: failing_model_env_def sample_env_def)

text \<open>
  The theorem on the sample store: a run where every stage returns, one where the
  text-to-speech raises after the turn was stored, one where the model call raises and
  neither the write nor the text-to-speech is reached, and one without a file.
\<close>

theorem voice_turn_stages_witness:
  "authenticated alice
   \<and> recognize sample_env [82, 73, 70] = Inr [[''hi'']]
   \<and> client sample_env
   \<and> (\<forall>sys conv. generate_content sample_env sys conv = Inr ''Hello'')
   \<and> synthesize_speech sample_env ''Hello'' = Inr [1, 2, 3]
   \<and> (\<exists>d' sys key m. transcribe_and_chat sample_env (sample_db 3) alice (Some [82, 73, 70]) =
      (Json 200 [(''user_transcript'', JStr ''hi''), (''ai_response_text'', JStr ''Hello''),
                 (''ai_response_audio'', JStr ''AQID'')], d',
       [Recognize [82, 73, 70], Generate sys [(''user'', ''hi'')], AddMessage key m, Synthesize ''Hello''])
      \<and> messages d' ''alice'' = messages (sample_db 3) ''alice'' @ [m])
   \<and> synthesize_speech failing_tts_env ''Hello'' = Inl ''quota exceeded''
   \<and> (\<exists>d' sys key m. transcribe_and_chat failing_tts_env (sample_db 3) alice (Some [82, 73, 70]) =
      (Json 500 [(''error'', JStr ''Text-to-Speech failed: quota exceeded'')], d',
       [Recognize [82, 73, 70], Generate sys [(''user'', ''hi'')], AddMessage key m, Synthesize ''Hello''])
      \<and> messages d' ''alice'' = messages (sample_db 3) ''alice'' @ [m])
   \<and> (\<forall>sys conv. generate_content failing_model_env sys conv = Inl ''deadline exceeded'')
   \<and> (\<exists>d' sys. transcribe_and_chat failing_model_env (sample_db 3) alice (Some [82, 73, 70]) =
      (Json 500 [(''error'', JStr ''AI chat failed: deadline exceeded'')], d',
       [Recognize [82, 73, 70], Generate sys [(''user'', ''hi'')]])
      \<and> messages d' = messages (sample_db 3))
   \<and> transcribe_and_chat sample_env (sample_db 3) alice None =
        (Json 400 [(''error'', JStr ''No audio file found'')], sample_db 3, [])"
proof -
  have a: "authenticated alice" and u: "username alice = Some ''alice''" by (simp_all add: alice_def)
  note forward = voice_turn_stages[THEN conjunct2, THEN conjunct1, THEN mp, OF a]
  note recognized = forward[THEN conjunct2, THEN conjunct2, THEN conjunct2, THEN mp]
  have stt: "recognize sample_env [82, 73, 70] = Inr ((''hi'' # []) # [])"
    and load: "get_user_profile_data sample_env (sample_db 3) (username alice) =
                 Inr (default_profile (Some ''alice''), healed_db)"
    and cl: "client sample_env"
    and gen: "generate_content sample_env
                (system_instruction (default_profile (Some ''alice'')) (username alice)) [(''user'', ''hi'')] =
              Inr ''Hello''"
    and add: "messages_add sample_env healed_db (username alice)
                (new_message sample_env (username alice) ''hi'' ''Hello'') =
              Inr (put_messages healed_db ''alice''
                     (messages (sample_db 3) ''alice'' @ [new_message sample_env (Some ''alice'') ''hi'' ''Hello'']))"
    and tts: "synthesize_speech sample_env ''Hello'' = Inr [1, 2, 3]"
    by (simp_all add: u sample_profile_load sample_voice_add)
  note stored = recognized[OF stt, THEN conjunct2, THEN mp, OF load, THEN conjunct2, THEN mp, OF cl,
      THEN conjunct2, THEN mp, OF gen, THEN conjunct2, THEN mp, OF add]
  note ok = stored[THEN conjunct2, THEN mp, OF tts]
  have stt': "recognize failing_tts_env [82, 73, 70] = Inr ((''hi'' # []) # [])"
    and load': "get_user_profile_data failing_tts_env (sample_db 3) (username alice) =
                 Inr (default_profile (Some ''alice''), healed_db)"
    and cl': "client failing_tts_env"
    and gen': "generate_content failing_tts_env
                (system_instruction (default_profile (Some ''alice'')) (username alice)) [(''user'', ''hi'')] =
              Inr ''Hello''"
    and add': "messages_add failing_tts_env healed_db (username alice)
                (new_message failing_tts_env (username alice) ''hi'' ''Hello'') =
              Inr (put_messages healed_db ''alice''
                     (messages (sample_db 3) ''alice'' @ [new_message failing_tts_env (Some ''alice'') ''hi'' ''Hello'']))"
    and tts': "synthesize_speech failing_tts_env ''Hello'' = Inl ''quota exceeded''"
    by (simp_all add: u sample_voice_load sample_voice_add)
  note stored' = recognized[OF stt', THEN conjunct2, THEN mp, OF load', THEN conjunct2, THEN mp, OF cl',
      THEN conjunct2, THEN mp, OF gen', THEN conjunct2, THEN mp, OF add']
  note ko = stored'[THEN conjunct1, THEN mp, OF tts']
  have stt'': "recognize failing_model_env [82, 73, 70] = Inr ((''hi'' # []) # [])"
    and load'': "get_user_profile_data failing_model_env (sample_db 3) (username alice) =
                 Inr (default_profile (Some ''alice''), healed_db)"
    and cl'': "client failing_model_env"
    and gen'': "generate_content failing_model_env
                (system_instruction (default_profile (Some ''alice'')) (username alice)) [(''user'', ''hi'')] =
              Inl ''deadline exceeded''"
    by (simp_all add: u failing_model_load)
  note model = recognized[OF stt'', THEN conjunct2, THEN mp, OF load'', THEN conjunct2, THEN mp, OF cl'',
      THEN conjunct1, THEN mp, OF gen'']
  note no = forward[THEN conjunct1]
  have 1: "\<exists>d' sys key m. transcribe_and_chat sample_env (sample_db 3) alice (Some [82, 73, 70]) =
      (Json 200 [(''user_transcript'', JStr ''hi''), (''ai_response_text'', JStr ''Hello''),
                 (''ai_response_audio'', JStr ''AQID'')], d',
       [Recognize [82, 73, 70], Generate sys [(''user'', ''hi'')], AddMessage key m, Synthesize ''Hello''])
      \<and> messages d' ''alice'' = messages (sample_db 3) ''alice'' @ [m]"
    unfolding ok by (simp add: u)
  have 2: "\<exists>d' sys key m. transcribe_and_chat failing_tts_env (sample_db 3) alice (Some [82, 73, 70]) =
      (Json 500 [(''error'', JStr ''Text-to-Speech failed: quota exceeded'')], d',
       [Recognize [82, 73, 70], Generate sys [(''user'', ''hi'')], AddMessage key m, Synthesize ''Hello''])
      \<and> messages d' ''alice'' = messages (sample_db 3) ''alice'' @ [m]"
    unfolding ko by (simp add: u)
  have 3: "\<exists>d' sys. transcribe_and_chat failing_model_env (sample_db 3) alice (Some [82, 73, 70]) =
      (Json 500 [(''error'', JStr ''AI chat failed: deadline exceeded'')], d',
       [Recognize [82, 73, 70], Generate sys [(''user'', ''hi'')]])
      \<and> messages d' = messages (sample_db 3)"
    unfolding model by (simp add: healed_db_messages)
  have 4: "transcribe_and_chat sample_env (sample_db 3) alice None =
        (Json 400 [(''error'', JStr ''No audio file found'')], sample_db 3, [])"
    by (rule no)
  have g: "\<forall>sys conv. generate_content sample_env sys conv = Inr ''Hello''"
    and g': "\<forall>sys conv. generate_content failing_model_env sys conv = Inl ''deadline exceeded''"
    by simp_all
  have stt0: "recognize sample_env [82, 73, 70] = Inr [[''hi'']]" by simp
  show ?thesis
    by (intro conjI a stt0 cl g tts 1 tts' 2 g' 3 4)
qed

text \<open>
  C9 as stated fails for the persistence stage, which has no message of its own: a write
  that raises is answered exactly as a model call that raises with the same text.
\<close>

theorem voice_write_failure_reads_as_chat_failure:
  "length (snd (snd (transcribe_and_chat failing_model_env (sample_db 3) alice (Some [82, 73, 70])))) = 2
   \<and> fst (transcribe_and_chat failing_model_env (sample_db 3) alice (Some [82, 73, 70])) =
       Json 500 [(''error'', JStr ''AI chat failed: deadline exceeded'')]
   \<and> length (snd (snd (transcribe_and_chat failing_add_env (sample_db 3) alice (Some [82, 73, 70])))) = 3
   \<and> fst (transcribe_and_chat failing_add_env (sample_db 3) alice (Some [82, 73, 70])) =
       Json 500 [(''error'', JStr ''AI chat failed: deadline exceeded'')]"
  by code_simp

section \<open>Login (C1)\<close>

text \<open>
  Where the comparison has no result, \<^verbatim>\<open>login\<close> has no handler: a password of 73
  characters, on which the sample comparison raises, and a form without the password
  field end the request of the stored user \<open>bob\<close> with the exception, while the unknown
  user \<open>eve\<close> gets the login page.
\<close>

lemma login_unhandled:
  "checkpw sample_env (replicate 73 CHR ''a'') ''hash:secret'' = Inl ''ValueError''
   \<and> login_v4 sample_env credentials_db anonymous POST (credentials ''bob'' (replicate 73 CHR ''a'')) =
        (Unhandled ''ValueError'', [], anonymous)
   \<and> login_v5 sample_env credentials_db anonymous POST (credentials ''bob'' (replicate 73 CHR ''a'')) =
        (Unhandled ''ValueError'', [], anonymous)
   \<and> login_v4 sample_env credentials_db anonymous POST (credentials ''eve'' (replicate 73 CHR ''a'')) =
        (Render ''login.html'', [(''Invalid username or password.'', ''danger'')], anonymous)
   \<and> login_v4 sample_env credentials_db anonymous POST \<lparr>form_username = Some ''bob'', form_password = None\<rparr> =
        (Unhandled ''AttributeError'', [], anonymous)
   \<and> login_v5 sample_env credentials_db anonymous POST \<lparr>form_username = Some ''bob'', form_password = None\<rparr> =
        (Unhandled ''AttributeError'', [], anonymous)"
  by (simp add: login_v4_def login_v5_def anonymous_def credentials_def credentials_db_def
      get_user_data_def users_get_def doc_key_def empty_doc_def)




section \<open>Admin user management (C8)\<close>

lemma users_set_effect:
  "users_set env d (Some name) doc = Inr d' \<Longrightarrow>
   d' = d\<lparr>users := AList.update name (resolve (server_time env) doc) (users d)\<rparr>"
  by (auto simp: users_set_def doc_key_def split: option.splits)

lemma hashed_password_resolve [simp]: "hashed_password (resolve now doc) = hashed_password doc"
  by (simp add: resolve_def)

lemma create_or_update_user_effect:
  assumes "create_or_update_user allowed env d name pw = Inr (res, d')"
  shows "profiles d' = profiles d \<and> messages d' = messages d \<and>
         (d' = d \<or> name \<in> set allowed \<and>
            (\<exists>doc. users d' = AList.update name doc (users d) \<and> hashed_password doc = Some (hashpw env pw)))"
proof (cases "name \<in> set allowed")
  case False
  with assms show ?thesis by (simp add: create_or_update_user_def)
next
  case True
  show ?thesis
  proof (cases "get_user_data env d (Some name)")
    case (Inl e)
    with assms True show ?thesis by (simp add: create_or_update_user_def)
  next
    case (Inr existing)
    with assms True show ?thesis
      by (auto simp: create_or_update_user_def Let_def split: sum.splits dest!: users_set_effect)
  qed
qed

lemma list_users_no_hash:
  "list_users env d = (user_list, flashed) \<Longrightarrow> \<forall>doc \<in> set user_list. hashed_password doc = None"
  by (auto simp: list_users_def split: sum.splits)

lemma admin_serve_effect:
  assumes "admin_serve allowed env d m f = (r, flashed, d')"
  shows "profiles d' = profiles d \<and> messages d' = messages d
       \<and> (d' = d \<or> m = POST \<and>
            (\<exists>name pw doc. form_username f = Some name \<and> form_password f = Some pw \<and>
               name \<in> set allowed \<and> users d' = AList.update name doc (users d) \<and>
               hashed_password doc = Some (hashpw env pw)))
       \<and> (\<forall>al user_list. r = RenderAdmin al user_list \<longrightarrow>
            al = allowed \<and> (\<forall>doc \<in> set user_list. hashed_password doc = None))"
proof (cases "m = POST \<and> (\<exists>name pw. form_username f = Some name \<and> form_password f = Some pw \<and> name \<noteq> [] \<and> pw \<noteq> [])")
  case False
  with assms show ?thesis
    by (auto simp: admin_serve_def dest: list_users_no_hash split: option.splits prod.splits if_splits)
next
  case True
  then obtain name pw where f: "m = POST" "form_username f = Some name" "form_password f = Some pw"
    "name \<noteq> []" "pw \<noteq> []" by blast
  show ?thesis
  proof (cases "create_or_update_user allowed env d name pw")
    case (Inl e)
    with assms f show ?thesis by (auto simp: admin_serve_def)
  next
    case (Inr x)
    obtain success msg d1 where x: "x = ((success, msg), d1)" by (cases x) auto
    note c = Inr[unfolded x]
    note eff = create_or_update_user_effect[OF c]
    from assms f c have d': "d' = d1"
      and r: "\<exists>ul fl. list_users env d1 = (ul, fl) \<and> r = RenderAdmin allowed ul"
      by (auto simp: admin_serve_def split: prod.splits if_splits)
    from r obtain ul fl where l: "list_users env d1 = (ul, fl)" and r': "r = RenderAdmin allowed ul"
      by blast
    from list_users_no_hash[OF l] r' eff f show ?thesis
      unfolding d' by auto
  qed
qed

text \<open>
  C8, amended. In v5 a request to \<^verbatim>\<open>/admin/create-user\<close> from a session without the
  admin flag is redirected and the store is left as it was. Whenever the route answers
  (v5 with the flag, v4 for every session: v4 has no check), the store changes at most
  in the \<^verbatim>\<open>users\<close> document of the submitted username, that username is in the
  version's allow-list and the document gets the hash of the submitted password; and no
  dictionary of the listing it renders has a \<^verbatim>\<open>hashed_password\<close>.
\<close>

theorem admin_create_user_guard:
  "(\<not> is_admin s \<longrightarrow>
      admin_create_user_v5 env d s m f =
        (Redirect ''chat_page'', [(''You do not have permission to access this page.'', ''danger'')], d))
   \<and> (\<forall>r flashed d'. admin_create_user_v5 env d s m f = (r, flashed, d') \<longrightarrow>
        profiles d' = profiles d \<and> messages d' = messages d \<and>
        (d' = d \<or> is_admin s \<and> m = POST \<and>
           (\<exists>name pw doc. form_username f = Some name \<and> form_password f = Some pw \<and>
              name \<in> set ALLOWED_USERNAMES_v5 \<and> users d' = AList.update name doc (users d) \<and>
              hashed_password doc = Some (hashpw env pw))) \<and>
        (\<forall>al user_list. r = RenderAdmin al user_list \<longrightarrow>
           is_admin s \<and> (\<forall>doc \<in> set user_list. hashed_password doc = None)))
   \<and> (\<forall>r flashed d'. admin_create_user_v4 env d s m f = (r, flashed, d') \<longrightarrow>
        profiles d' = profiles d \<and> messages d' = messages d \<and>
        (d' = d \<or> m = POST \<and>
           (\<exists>name pw doc. form_username f = Some name \<and> form_password f = Some pw \<and>
              name \<in> set ALLOWED_USERNAMES_v4 \<and> users d' = AList.update name doc (users d) \<and>
              hashed_password doc = Some (hashpw env pw))) \<and>
        (\<forall>al user_list. r = RenderAdmin al user_list \<longrightarrow>
           (\<forall>doc \<in> set user_list. hashed_password doc = None)))"
proof -
  have 1: "\<not> is_admin s \<longrightarrow>
      admin_create_user_v5 env d s m f =
        (Redirect ''chat_page'', [(''You do not have permission to access this page.'', ''danger'')], d)"
    by (simp add: admin_create_user_v5_def)
  have 2: "\<forall>r flashed d'. admin_create_user_v5 env d s m f = (r, flashed, d') \<longrightarrow>
        profiles d' = profiles d \<and> messages d' = messages d \<and>
        (d' = d \<or> is_admin s \<and> m = POST \<and>
           (\<exists>name pw doc. form_username f = Some name \<and> form_password f = Some pw \<and>
              name \<in> set ALLOWED_USERNAMES_v5 \<and> users d' = AList.update name doc (users d) \<and>
              hashed_password doc = Some (hashpw env pw))) \<and>
        (\<forall>al user_list. r = RenderAdmin al user_list \<longrightarrow>
           is_admin s \<and> (\<forall>doc \<in> set user_list. hashed_password doc = None))"
  proof (intro allI impI)
    fix r flashed d'
    assume a: "admin_create_user_v5 env d s m f = (r, flashed, d')"
    show "profiles d' = profiles d \<and> messages d' = messages d \<and>
        (d' = d \<or> is_admin s \<and> m = POST \<and>
           (\<exists>name pw doc. form_username f = Some name \<and> form_password f = Some pw \<and>
              name \<in> set ALLOWED_USERNAMES_v5 \<and> users d' = AList.update name doc (users d) \<and>
              hashed_password doc = Some (hashpw env pw))) \<and>
        (\<forall>al user_list. r = RenderAdmin al user_list \<longrightarrow>
           is_admin s \<and> (\<forall>doc \<in> set user_list. hashed_password doc = None))"
    proof (cases "is_admin s")
      case False
      with a show ?thesis by (auto simp: admin_create_user_v5_def)
    next
      case True
      with a have "admin_serve ALLOWED_USERNAMES_v5 env d m f = (r, flashed, d')"
        by (simp add: admin_create_user_v5_def)
      from admin_serve_effect[OF this] True show ?thesis by blast
    qed
  qed
  have 3: "\<forall>r flashed d'. admin_create_user_v4 env d s m f = (r, flashed, d') \<longrightarrow>
        profiles d' = profiles d \<and> messages d' = messages d \<and>
        (d' = d \<or> m = POST \<and>
           (\<exists>name pw doc. form_username f = Some name \<and> form_password f = Some pw \<and>
              name \<in> set ALLOWED_USERNAMES_v4 \<and> users d' = AList.update name doc (users d) \<and>
              hashed_password doc = Some (hashpw env pw))) \<and>
        (\<forall>al user_list. r = RenderAdmin al user_list \<longrightarrow>
           (\<forall>doc \<in> set user_list. hashed_password doc = None))"
  proof (intro allI impI)
    fix r flashed d'
    assume "admin_create_user_v4 env d s m f = (r, flashed, d')"
    then have "admin_serve ALLOWED_USERNAMES_v4 env d m f = (r, flashed, d')"
      by (simp add: admin_create_user_v4_def)
    from admin_serve_effect[OF this]
    show "profiles d' = profiles d \<and> messages d' = messages d \<and>
        (d' = d \<or> m = POST \<and>
           (\<exists>name pw doc. form_username f = Some name \<and> form_password f = Some pw \<and>
              name \<in> set ALLOWED_USERNAMES_v4 \<and> users d' = AList.update name doc (users d) \<and>
              hashed_password doc = Some (hashpw env pw))) \<and>
        (\<forall>al user_list. r = RenderAdmin al user_list \<longrightarrow>
           (\<forall>doc \<in> set user_list. hashed_password doc = None))"
      by blast
  qed
  show ?thesis by (rule conjI[OF 1 conjI[OF 2 3]])
qed

text \<open>
  The theorem in v5: a session without the flag, and an admin session submitting a name
  outside and a name inside the allow-list.
\<close>

theorem admin_create_user_guard_witness:
  "\<not> is_admin anonymous
   \<and> admin_create_user_v5 sample_env credentials_db anonymous POST (credentials ''add here'' ''pw'') =
       (Redirect ''chat_page'', [(''You do not have permission to access this page.'', ''danger'')],
        credentials_db)
   \<and> snd (snd (admin_create_user_v5 sample_env credentials_db admin_session POST
         (credentials ''mallory'' ''pw''))) = credentials_db
   \<and> map (\<lambda>(k, doc). (k, hashed_password doc))
        (users (snd (snd (admin_create_user_v5 sample_env credentials_db admin_session POST
           (credentials ''add here'' ''pw''))))) =
       [(''bob'', Some ''hash:secret''), (''add here'', Some ''hash:pw'')]
   \<and> (\<exists>al ul. fst (admin_create_user_v5 sample_env credentials_db admin_session POST
         (credentials ''add here'' ''pw'')) = RenderAdmin al ul \<and> map hashed_password ul = [None, None])"
proof -
  let ?m = "admin_create_user_v5 sample_env credentials_db admin_session POST (credentials ''mallory'' ''pw'')"
  have a: "\<not> is_admin anonymous" by (simp add: anonymous_def)
  note g = admin_create_user_guard[of anonymous sample_env credentials_db POST "credentials ''add here'' ''pw''"]
  from g a have 1: "admin_create_user_v5 sample_env credentials_db anonymous POST (credentials ''add here'' ''pw'') =
       (Redirect ''chat_page'', [(''You do not have permission to access this page.'', ''danger'')],
        credentials_db)"
    by blast
  have m: "?m = (fst ?m, fst (snd ?m), snd (snd ?m))" by simp
  have "form_username (credentials ''mallory'' ''pw'') = Some ''mallory''"
    and "''mallory'' \<notin> set ALLOWED_USERNAMES_v5"
    by (simp_all add: credentials_def ALLOWED_USERNAMES_v5_def)
  with admin_create_user_guard[of admin_session sample_env credentials_db POST "credentials ''mallory'' ''pw''"] m
  have 2: "snd (snd ?m) = credentials_db" by (metis option.inject)
  have 3: "map (\<lambda>(k, doc). (k, hashed_password doc))
        (users (snd (snd (admin_create_user_v5 sample_env credentials_db admin_session POST
           (credentials ''add here'' ''pw''))))) =
       [(''bob'', Some ''hash:secret''), (''add here'', Some ''hash:pw'')]"
    by code_simp
  have 4: "map hashed_password (case fst (admin_create_user_v5 sample_env credentials_db admin_session POST
       (credentials ''add here'' ''pw'')) of RenderAdmin al ul \<Rightarrow> ul | _ \<Rightarrow> []) = [None, None]"
    by code_simp
  then have 5: "\<exists>al ul. fst (admin_create_user_v5 sample_env credentials_db admin_session POST
         (credentials ''add here'' ''pw'')) = RenderAdmin al ul \<and> map hashed_password ul = [None, None]"
    by (cases "fst (admin_create_user_v5 sample_env credentials_db admin_session POST
         (credentials ''add here'' ''pw''))") simp_all
  from a 1 2 3 5 show ?thesis by blast
qed

text \<open>
  C8 as stated fails on v4: a session with no admin flag (not even logged in) creates the
  credential of an allow-listed name.
\<close>

theorem admin_create_user_v4_unguarded:
  "\<not> is_admin anonymous \<and> \<not> authenticated anonymous
   \<and> map (\<lambda>(k, doc). (k, hashed_password doc)) (users credentials_db) = [(''bob'', Some ''hash:secret'')]
   \<and> map (\<lambda>(k, doc). (k, hashed_password doc))
        (users (snd (snd (admin_create_user_v4 sample_env credentials_db anonymous POST
           (credentials ''change this'' ''pw''))))) =
       [(''bob'', Some ''hash:secret''), (''change this'', Some ''hash:pw'')]"
  by code_simp

section \<open>The self-healing profile read (C6)\<close>

lemma merge_doc_empty: "merge_doc p empty_doc = p"
  by (simp add: merge_doc_def empty_doc_def over_def split: option.splits)

lemma map_of_update_same: "map_of (AList.update k v al) k = Some v"
  by (simp add: update_conv')

text \<open>
  The first two reads of a profile. For a username with no stored profile document and
  reads and writes that do not raise: the read of v4 (\<^verbatim>\<open>get_user_profile_data\<close>) stores the
  default document, its creation time set by the server, and returns the dictionary it
  built; a second read leaves the store as it is and returns the stored document without
  its internal keys, which holds the same four profile fields. The read of v3
  (\<^verbatim>\<open>get_or_create_user_profile\<close>) behaves alike, its second read returning the stored
  document whole. Nothing being stored under the name, the merge of v4 has no field to
  preserve.
\<close>

lemma profile_self_heal:
  "(map_of (users d) u = None \<and> db_raises env UsersGet = None \<and> db_raises env UsersSet = None \<and>
    db_raises env' UsersGet = None \<longrightarrow>
      (\<exists>d1. get_user_profile_data env d (Some u) = Inr (default_profile (Some u), d1)
          \<and> users d1 = AList.update u (resolve (server_time env) (default_profile (Some u))) (users d)
          \<and> profiles d1 = profiles d \<and> messages d1 = messages d
          \<and> get_user_profile_data env' d1 (Some u) =
              Inr ((default_profile (Some u))\<lparr>created_at := None\<rparr>, d1)
          \<and> profile_fields ((default_profile (Some u))\<lparr>created_at := None\<rparr>) =
              profile_fields (default_profile (Some u))))
   \<and> (profiles d u = None \<and> db_raises env ProfileGet = None \<and> db_raises env ProfileSet = None \<and>
      db_raises env' ProfileGet = None \<longrightarrow>
      (\<exists>d1. get_or_create_user_profile env d (Some u) = Inr (default_profile (Some u), d1)
          \<and> profiles d1 = (profiles d)(u \<mapsto> resolve (server_time env) (default_profile (Some u)))
          \<and> users d1 = users d \<and> messages d1 = messages d
          \<and> get_or_create_user_profile env' d1 (Some u) =
              Inr (resolve (server_time env) (default_profile (Some u)), d1)
          \<and> profile_fields (resolve (server_time env) (default_profile (Some u))) =
              profile_fields (default_profile (Some u))))
   \<and> profile_fields (default_profile (Some u)) = (Some DEFAULT_PERSONA, Some DEFAULT_GOAL, Some [], Some u)
   \<and> created_at (resolve (server_time env) (default_profile (Some u))) = Some (At (server_time env))"
proof (intro conjI impI)
  assume a: "map_of (users d) u = None \<and> db_raises env UsersGet = None \<and> db_raises env UsersSet = None \<and>
    db_raises env' UsersGet = None"
  let ?d1 = "d\<lparr>users := AList.update u (resolve (server_time env) (default_profile (Some u))) (users d)\<rparr>"
  have 1: "get_user_profile_data env d (Some u) = Inr (default_profile (Some u), ?d1)"
    using a by (simp add: get_user_profile_data_def users_get_def users_set_merge_def doc_key_def
        merge_doc_empty)
  have 2: "get_user_profile_data env' ?d1 (Some u) =
              Inr ((default_profile (Some u))\<lparr>created_at := None\<rparr>, ?d1)"
    using a by (simp add: get_user_profile_data_def users_get_def doc_key_def map_of_update_same
        resolve_def default_profile_def)
  have 3: "profile_fields ((default_profile (Some u))\<lparr>created_at := None\<rparr>) =
              profile_fields (default_profile (Some u))"
    by (simp add: profile_fields_def)
  from 1 2 3 show "\<exists>d1. get_user_profile_data env d (Some u) = Inr (default_profile (Some u), d1)
          \<and> users d1 = AList.update u (resolve (server_time env) (default_profile (Some u))) (users d)
          \<and> profiles d1 = profiles d \<and> messages d1 = messages d
          \<and> get_user_profile_data env' d1 (Some u) =
              Inr ((default_profile (Some u))\<lparr>created_at := None\<rparr>, d1)
          \<and> profile_fields ((default_profile (Some u))\<lparr>created_at := None\<rparr>) =
              profile_fields (default_profile (Some u))"
    by (intro exI[of _ ?d1]) simp
next
  assume a: "profiles d u = None \<and> db_raises env ProfileGet = None \<and> db_raises env ProfileSet = None \<and>
      db_raises env' ProfileGet = None"
  let ?d1 = "d\<lparr>profiles := (profiles d)(u \<mapsto> resolve (server_time env) (default_profile (Some u)))\<rparr>"
  have 1: "get_or_create_user_profile env d (Some u) = Inr (default_profile (Some u), ?d1)"
    using a by (simp add: get_or_create_user_profile_def profile_get_def profile_set_def doc_key_def)
  have 2: "get_or_create_user_profile env' ?d1 (Some u) =
              Inr (resolve (server_time env) (default_profile (Some u)), ?d1)"
    using a by (simp add: get_or_create_user_profile_def profile_get_def doc_key_def)
  have 3: "profile_fields (resolve (server_time env) (default_profile (Some u))) =
              profile_fields (default_profile (Some u))"
    by (simp add: profile_fields_def resolve_def)
  from 1 2 3 show "\<exists>d1. get_or_create_user_profile env d (Some u) = Inr (default_profile (Some u), d1)
          \<and> profiles d1 = (profiles d)(u \<mapsto> resolve (server_time env) (default_profile (Some u)))
          \<and> users d1 = users d \<and> messages d1 = messages d
          \<and> get_or_create_user_profile env' d1 (Some u) =
              Inr (resolve (server_time env) (default_profile (Some u)), d1)
          \<and> profile_fields (resolve (server_time env) (default_profile (Some u))) =
              profile_fields (default_profile (Some u))"
    by (intro exI[of _ ?d1]) simp
next
  show "profile_fields (default_profile (Some u)) = (Some DEFAULT_PERSONA, Some DEFAULT_GOAL, Some [], Some u)"
    by (simp add: profile_fields_def default_profile_def)
  show "created_at (resolve (server_time env) (default_profile (Some u))) = Some (At (server_time env))"
    by (simp add: resolve_def default_profile_def resolve_ts_def)
qed

text \<open>The two reads of \<open>alice\<close> on the sample store.\<close>

lemma profile_self_heal_sample:
  "map_of (users (sample_db 3)) ''alice'' = None
   \<and> get_user_profile_data sample_env (sample_db 3) (Some ''alice'') =
       Inr (default_profile (Some ''alice''), healed_db)
   \<and> get_user_profile_data sample_env healed_db (Some ''alice'') =
       Inr ((default_profile (Some ''alice''))\<lparr>created_at := None\<rparr>, healed_db)
   \<and> profile_fields ((default_profile (Some ''alice''))\<lparr>created_at := None\<rparr>) =
       (Some DEFAULT_PERSONA, Some DEFAULT_GOAL, Some [], Some ''alice'')
   \<and> map_of (users healed_db) ''alice'' = Some (resolve 100 (default_profile (Some ''alice'')))"
proof -
  have a: "map_of (users (sample_db 3)) ''alice'' = None" by (simp add: sample_db_def)
  have h: "\<And>d1. users d1 = AList.update ''alice'' (resolve (server_time sample_env) (default_profile (Some ''alice'')))
                 (users (sample_db 3)) \<Longrightarrow> profiles d1 = profiles (sample_db 3) \<Longrightarrow>
        messages d1 = messages (sample_db 3) \<Longrightarrow> d1 = healed_db"
    by (simp add: healed_db_def sample_db_def)
  from profile_self_heal[of "sample_db 3" "''alice''" sample_env sample_env] a
  obtain d1 where d1: "get_user_profile_data sample_env (sample_db 3) (Some ''alice'') =
        Inr (default_profile (Some ''alice''), d1)"
      "users d1 = AList.update ''alice'' (resolve (server_time sample_env) (default_profile (Some ''alice'')))
                 (users (sample_db 3))"
      "profiles d1 = profiles (sample_db 3)" "messages d1 = messages (sample_db 3)"
      "get_user_profile_data sample_env d1 (Some ''alice'') =
         Inr ((default_profile (Some ''alice''))\<lparr>created_at := None\<rparr>, d1)"
      "profile_fields ((default_profile (Some ''alice''))\<lparr>created_at := None\<rparr>) =
         profile_fields (default_profile (Some ''alice''))"
      "profile_fields (default_profile (Some ''alice'')) =
         (Some DEFAULT_PERSONA, Some DEFAULT_GOAL, Some [], Some ''alice'')"
    by auto
  from h[OF d1(2,3,4)] have e: "d1 = healed_db" .
  have s: "map_of (users healed_db) ''alice'' = Some (resolve 100 (default_profile (Some ''alice'')))"
    by (simp add: healed_db_def)
  from a d1(1,5,6,7) s show ?thesis unfolding e by simp
qed

text \<open>
  C6. The first two profile reads of \<open>alice\<close> on the sample store, where she has no
  document. The first read of v4 goes through the branch for a missing document and
  returns the dictionary it wrote, which still holds \<^verbatim>\<open>created_at\<close>, the write sentinel.
  The second goes through the branch for a stored document, which removes \<^verbatim>\<open>created_at\<close>
  with the other internal keys. So the second read does not return what the first one
  returned, although the four profile fields agree and the store is the same after both.
\<close>

theorem second_profile_read_differs:
  "map_of (users (sample_db 3)) ''alice'' = None
   \<and> get_user_profile_data sample_env (sample_db 3) (Some ''alice'') =
       Inr (default_profile (Some ''alice''), healed_db)
   \<and> get_user_profile_data sample_env healed_db (Some ''alice'') =
       Inr ((default_profile (Some ''alice''))\<lparr>created_at := None\<rparr>, healed_db)
   \<and> (default_profile (Some ''alice''))\<lparr>created_at := None\<rparr> \<noteq> default_profile (Some ''alice'')
   \<and> created_at (default_profile (Some ''alice'')) = Some SERVER_TIMESTAMP
   \<and> profile_fields ((default_profile (Some ''alice''))\<lparr>created_at := None\<rparr>) =
       profile_fields (default_profile (Some ''alice''))"
  by (simp add: sample_profile_load)
     (simp add: get_user_profile_data_def users_get_def doc_key_def healed_db_def resolve_def
      default_profile_def profile_fields_def sample_db_def)

end
